theory Spec2Isabelle
  imports Complex_Main "HOL-Library.Sublist"
begin

section \<open>MAIK: the chat client, the step sequencer and the command line\<close>

text \<open>
  A shallow embedding of \<^verbatim>\<open>openai-client.ts\<close>, \<^verbatim>\<open>contract-processor.ts\<close>,
  \<^verbatim>\<open>types.ts\<close> and the two configuration functions of \<^verbatim>\<open>cli.ts\<close>.

  JavaScript strings are modelled as \<open>string\<close>; \<open>length\<close> stands for \<^verbatim>\<open>.length\<close>.
  Everything the program does to the outside world is explicit: the requests sent to the
  provider are appended to a log, the provider's answer is a parameter, the lines typed at
  the terminal are a list that the prompts consume (the answers the prompts of the
  sequencer return are a log too), the file system is a map from paths to contents, and
  the spinner's final messages are a log. Plain \<^verbatim>\<open>console.log\<close> output is
  not modelled.
\<close>

subsection \<open>Data model (\<^verbatim>\<open>types.ts\<close>)\<close>

datatype role = System | User | Assistant

record message =
  role :: role
  content :: string

record ModelConfig =
  model :: string
  temperature :: real
  maxTokens :: int

text \<open>
  \<^verbatim>\<open>Partial<ModelConfig>\<close>: every key may be missing (\<open>None\<close>); a key that is given has
  a value.
\<close>

record PartialModelConfig =
  model_opt :: "string option"
  temperature_opt :: "real option"
  maxTokens_opt :: "int option"

record ProcessConfig =
  apiKey :: string
  directory :: string
  cfg_userPrompt :: string
  outputFile :: "string option"

record ContractSession =
  userPrompt :: string
  conversationHistory :: "message list"
  contractDraft :: "string option"
  finalContract :: "string option"

subsection \<open>JavaScript values the code inspects\<close>

text \<open>
  A thrown value is an \<^verbatim>\<open>Error\<close> instance, of some class and with a message, or any other
  value, of which the code only ever takes \<^verbatim>\<open>String(value)\<close>. The classes besides the plain
  \<^verbatim>\<open>Error\<close> are the engine's \<^verbatim>\<open>TypeError\<close> and the ones by which the provider's library
  tells its failures apart.
\<close>

datatype error_class =
  PlainError | TypeError | APIConnectionError | AuthenticationError | RateLimitError |
  BadRequestError

datatype js_thrown = ErrorObject error_class string | OtherValue string

text \<open>\<^verbatim>\<open>error instanceof Error ? error.message : String(error)\<close>\<close>

fun error_text :: "js_thrown \<Rightarrow> string" where
  "error_text (ErrorObject c m) = m"
| "error_text (OtherValue s) = s"

text \<open>A run ends early by a thrown value, or waits for terminal input that never comes.\<close>

datatype failure = Thrown js_thrown | InputExhausted

text \<open>Truthiness of an optional string: \<^verbatim>\<open>undefined\<close> and \<^verbatim>\<open>''\<close> are falsy.\<close>

fun truthy :: "string option \<Rightarrow> bool" where
  "truthy None = False"
| "truthy (Some s) = (s \<noteq> [])"

text \<open>
  \<^verbatim>\<open>String.prototype.trim\<close> removes white space and line terminators from both ends;
  among the characters of \<open>char\<close> these are tab, line feed, vertical tab, form feed,
  carriage return, space and the no-break space.
\<close>

definition is_space :: "char \<Rightarrow> bool" where
  "is_space c = (c \<in> set [CHR 0x09, CHR 0x0A, CHR 0x0B, CHR 0x0C, CHR 0x0D, CHR 0x20, CHR 0xA0])"

definition trim :: "string \<Rightarrow> string" where
  "trim s = rev (dropWhile is_space (rev (dropWhile is_space s)))"

text \<open>Decimal rendering of an integer, as a template literal renders a number.\<close>

fun show_nat :: "nat \<Rightarrow> string" where
  "show_nat n =
     (if n < 10 then [''0123456789'' ! n]
      else show_nat (n div 10) @ [''0123456789'' ! (n mod 10)])"

declare show_nat.simps [simp del]

definition show_int :: "int \<Rightarrow> string" where
  "show_int i = (if i < 0 then CHR ''-'' # show_nat (nat (- i)) else show_nat (nat i))"

subsection \<open>The provider's answer and the outbound request\<close>

text \<open>
  The value \<^verbatim>\<open>client.chat.completions.create\<close> resolves to. The provider's library
  declares it to carry a list of choices, each with a message (which the code allows to be
  missing), whose content is a string or \<^verbatim>\<open>null\<close>. The library does not check the body it
  receives against that declaration, and neither does the code: a resolved value with no
  \<^verbatim>\<open>choices\<close> array (the body of an error that came with a success status, or no body at
  all) is \<open>NoChoices\<close>. Reading \<^verbatim>\<open>response.choices[0]\<close> of such a value throws a
  \<^verbatim>\<open>TypeError\<close>; the argument of \<open>NoChoices\<close> is the message the engine gives it.
\<close>

datatype choice_message = ChoiceMessage (msg_content: "string option")

datatype choice = Choice (choice_message: "choice_message option")

datatype chat_completion = ChatCompletion "choice list" | NoChoices string

record OpenAIClient =
  client_apiKey :: string
  baseURL :: string

text \<open>
  What \<^verbatim>\<open>client.chat.completions.create\<close> sends: the four parameters the code passes, and
  the key and the address of the client that sends them.
\<close>

record request =
  req_client :: OpenAIClient
  req_model :: string
  req_messages :: "message list"
  req_temperature :: real
  req_max_tokens :: int

subsection \<open>The outside world\<close>

datatype spinner_event = Succeed string | Fail string

record ContractProcessor =
  client :: OpenAIClient
  config :: ProcessConfig
  session :: ContractSession

record world =
  this :: ContractProcessor
  stdin :: "string list"
  files :: "string \<rightharpoonup> string"
  answers :: "string list"
  requests :: "request list"
  spinner :: "spinner_event list"

text \<open>
  How \<^verbatim>\<open>writeFileSync(path, data)\<close> ends: the file holds the data, or the call throws. A
  call that throws when it opens the file (a missing directory, a path that is a
  directory, no permission) leaves the file as it was; one that throws later (a full disk)
  leaves a file holding the part written so far.
\<close>

datatype write_result = Written | Failed js_thrown "string option"

text \<open>
  What the program cannot decide: the provider's answer to a request (which may depend
  on the requests sent before), \<^verbatim>\<open>path.join\<close>, the clock read by \<^verbatim>\<open>Date.now()\<close>, the
  environment variable \<^verbatim>\<open>OPENROUTER_API_KEY\<close> (absent when \<open>None\<close>) and how the write of
  some data to a path ends.
\<close>

record env =
  provider :: "request list \<Rightarrow> request \<Rightarrow> js_thrown + chat_completion"
  pjoin :: "string \<Rightarrow> string \<Rightarrow> string"
  clock :: int
  env_OPENROUTER_API_KEY :: "string option"
  write_outcome :: "string \<Rightarrow> string \<Rightarrow> write_result"

text \<open>
  A program takes a state and returns a value or a failure, and the state it leaves.
  A failure keeps the state changes made before it, as a JavaScript exception does.
\<close>

type_synonym ('a, 's) prog = "'s \<Rightarrow> (failure + 'a) \<times> 's"

definition returnP :: "'a \<Rightarrow> ('a, 's) prog" where
  "returnP x = (\<lambda>s. (Inr x, s))"

definition throwP :: "js_thrown \<Rightarrow> ('a, 's) prog" where
  "throwP e = (\<lambda>s. (Inl (Thrown e), s))"

definition bindP :: "('a, 's) prog \<Rightarrow> ('a \<Rightarrow> ('b, 's) prog) \<Rightarrow> ('b, 's) prog" where
  "bindP m f = (\<lambda>s. case m s of (Inl e, s') \<Rightarrow> (Inl e, s') | (Inr x, s') \<Rightarrow> f x s')"

subsection \<open>\<^verbatim>\<open>openai-client.ts\<close>\<close>

definition new_OpenAIClient :: "string \<Rightarrow> OpenAIClient" where
  "new_OpenAIClient key = \<lparr>client_apiKey = key, baseURL = ''https://openrouter.ai/api/v1''\<rparr>"

text \<open>\<^verbatim>\<open>{ model: 'gpt-4', temperature: 0.7, maxTokens: 4000, ...config }\<close>\<close>

definition defaultConfig :: "PartialModelConfig \<Rightarrow> ModelConfig" where
  "defaultConfig cfg =
     \<lparr>model = (case model_opt cfg of None \<Rightarrow> ''gpt-4'' | Some m \<Rightarrow> m),
      temperature = (case temperature_opt cfg of None \<Rightarrow> 7 / 10 | Some t \<Rightarrow> t),
      maxTokens = (case maxTokens_opt cfg of None \<Rightarrow> 4000 | Some n \<Rightarrow> n)\<rparr>"

definition no_override :: PartialModelConfig where
  "no_override = \<lparr>model_opt = None, temperature_opt = None, maxTokens_opt = None\<rparr>"

text \<open>
  \<^verbatim>\<open>response.choices[0]?.message?.content || ''\<close>: the optional chaining guards the first
  choice and its message, not the array.
\<close>

fun first_content :: "chat_completion \<Rightarrow> js_thrown + string" where
  "first_content (NoChoices m) = Inl (ErrorObject TypeError m)"
| "first_content (ChatCompletion []) = Inr ''''"
| "first_content (ChatCompletion (Choice None # cs)) = Inr ''''"
| "first_content (ChatCompletion (Choice (Some (ChoiceMessage None)) # cs)) = Inr ''''"
| "first_content (ChatCompletion (Choice (Some (ChoiceMessage (Some t))) # cs)) = Inr t"

text \<open>
  The \<^verbatim>\<open>try\<close> block of \<^verbatim>\<open>chatCompletion\<close>: the call, then the reading of its result. What
  either of them throws reaches the same \<^verbatim>\<open>catch\<close>.
\<close>

definition try_block :: "env \<Rightarrow> request list \<Rightarrow> request \<Rightarrow> js_thrown + string" where
  "try_block E sent rq =
     (case provider E sent rq of
        Inr response \<Rightarrow> first_content response
      | Inl error \<Rightarrow> Inl error)"

definition chatCompletion ::
  "env \<Rightarrow> OpenAIClient \<Rightarrow> message list \<Rightarrow> PartialModelConfig \<Rightarrow> (string, world) prog" where
  "chatCompletion E c messages cfg = (\<lambda>w.
     let dc = defaultConfig cfg;
         rq = \<lparr>req_client = c, req_model = model dc, req_messages = messages,
               req_temperature = temperature dc, req_max_tokens = maxTokens dc\<rparr>;
         w' = w\<lparr>requests := requests w @ [rq]\<rparr>
     in case try_block E (requests w) rq of
          Inr text \<Rightarrow> (Inr text, w')
        | Inl error \<Rightarrow>
            (Inl (Thrown (ErrorObject PlainError (''OpenAI API error: '' @ error_text error))), w'))"

definition generateContractStep ::
  "env \<Rightarrow> OpenAIClient \<Rightarrow> string \<Rightarrow> string \<Rightarrow> message list \<Rightarrow> (string, world) prog" where
  "generateContractStep E c systemPrompt userMessage history =
     (let messages = [\<lparr>role = System, content = systemPrompt\<rparr>] @ history @
                     [\<lparr>role = User, content = userMessage\<rparr>]
      in chatCompletion E c messages no_override)"

subsection \<open>The terminal (\<^verbatim>\<open>inquirer\<close>)\<close>

text \<open>
  One prompt of type input or password. Each line the user submits is replaced by the
  default when it is empty (by the empty string when there is no default), then validated;
  a rejected answer is asked again, the first accepted one is returned. The state is the
  list of lines the user will still type.
\<close>

fun inquirer_input :: "string option \<Rightarrow> (string \<Rightarrow> bool) \<Rightarrow> (string, string list) prog" where
  "inquirer_input dflt validate [] = (Inl InputExhausted, [])"
| "inquirer_input dflt validate (l # ls) =
     (let answer = (if l = [] then (case dflt of None \<Rightarrow> [] | Some d \<Rightarrow> d) else l)
      in if validate answer then (Inr answer, ls) else inquirer_input dflt validate ls)"

definition on_stdin :: "('a, string list) prog \<Rightarrow> ('a, world) prog" where
  "on_stdin m = (\<lambda>w. case m (stdin w) of (r, rest) \<Rightarrow> (r, w\<lparr>stdin := rest\<rparr>))"

subsection \<open>\<^verbatim>\<open>contract-processor.ts\<close>\<close>

definition new_ContractProcessor :: "ProcessConfig \<Rightarrow> ContractProcessor" where
  "new_ContractProcessor cfg =
     \<lparr>client = new_OpenAIClient (apiKey cfg),
      config = cfg,
      session = \<lparr>userPrompt = cfg_userPrompt cfg, conversationHistory = [],
                 contractDraft = None, finalContract = None\<rparr>\<rparr>"

abbreviation history :: "world \<Rightarrow> message list" where
  "history w \<equiv> conversationHistory (session (this w))"

text \<open>\<^verbatim>\<open>this.session.conversationHistory.push(...)\<close>, and the two assignments to the session.\<close>

definition push_history :: "message list \<Rightarrow> world \<Rightarrow> world" where
  "push_history ms w =
     w\<lparr>this := (this w)\<lparr>session := (session (this w))
         \<lparr>conversationHistory := conversationHistory (session (this w)) @ ms\<rparr>\<rparr>\<rparr>"

definition set_contractDraft :: "string \<Rightarrow> (unit, world) prog" where
  "set_contractDraft t = (\<lambda>w.
     (Inr (), w\<lparr>this := (this w)\<lparr>session := (session (this w))\<lparr>contractDraft := Some t\<rparr>\<rparr>\<rparr>))"

definition set_finalContract :: "string \<Rightarrow> (unit, world) prog" where
  "set_finalContract t = (\<lambda>w.
     (Inr (), w\<lparr>this := (this w)\<lparr>session := (session (this w))\<lparr>finalContract := Some t\<rparr>\<rparr>\<rparr>))"

definition loadPromptFile :: "env \<Rightarrow> string \<Rightarrow> (string, world) prog" where
  "loadPromptFile E filename = (\<lambda>w.
     let filePath = pjoin E (directory (config (this w))) filename
     in case files w filePath of
          None \<Rightarrow> throwP (ErrorObject PlainError (''Prompt file not found: '' @ filePath)) w
        | Some text \<Rightarrow> (Inr (trim text), w))"

definition executeStep :: "env \<Rightarrow> string \<Rightarrow> string \<Rightarrow> string \<Rightarrow> (string, world) prog" where
  "executeStep E stepName systemPrompt userMessage = (\<lambda>w.
     case generateContractStep E (client (this w)) systemPrompt userMessage (history w) w of
       (Inr response, w') \<Rightarrow>
         (Inr response,
          (push_history [\<lparr>role = User, content = userMessage\<rparr>,
                         \<lparr>role = Assistant, content = response\<rparr>] w')
            \<lparr>spinner := spinner w' @ [Succeed (stepName @ '' completed'')]\<rparr>)
     | (Inl error, w') \<Rightarrow>
         (Inl error, w'\<lparr>spinner := spinner w' @ [Fail (stepName @ '' failed'')]\<rparr>))"

text \<open>
  The prompt rejects an answer that is empty after trimming. The answer it returns is
  also appended to \<open>answers\<close>.
\<close>

definition getUserInput :: "string \<Rightarrow> string option \<Rightarrow> (string, world) prog" where
  "getUserInput prompt defaultValue = (\<lambda>w.
     case on_stdin (inquirer_input defaultValue (\<lambda>input. length (trim input) \<noteq> 0)) w of
       (Inr input, w') \<Rightarrow> (Inr input, w'\<lparr>answers := answers w' @ [input]\<rparr>)
     | (Inl e, w') \<Rightarrow> (Inl e, w'))"

definition nl :: string where
  "nl = [CHR 0x0A]"

definition finalPrompt :: "string \<Rightarrow> string \<Rightarrow> string \<Rightarrow> string \<Rightarrow> string" where
  "finalPrompt draft verification userAdjustments userExplanation =
     ''You are a legal expert specializing in German freelance contracts. Based on the contract draft, verification feedback, and user input, generate the final improved contract.''
     @ nl @ nl @ ''Contract Draft:'' @ nl @ draft
     @ nl @ nl @ ''Verification Feedback:'' @ nl @ verification
     @ nl @ nl @ ''User Adjustments:'' @ nl @ userAdjustments
     @ nl @ nl @ ''User Explanation Notes:'' @ nl @ userExplanation
     @ nl @ nl @ ''Please generate the final German freelance contract incorporating all necessary improvements from the verification feedback and user input. The contract should be well-structured, legally sound for German jurisdiction, and ready for use.''"

definition generateFinalContract ::
  "env \<Rightarrow> string \<Rightarrow> string \<Rightarrow> string \<Rightarrow> string \<Rightarrow> (string, world) prog" where
  "generateFinalContract E draft verification userAdjustments userExplanation = (\<lambda>w.
     case generateContractStep E (client (this w))
            (finalPrompt draft verification userAdjustments userExplanation)
            ''Generate the final German freelance contract'' (history w) w of
       (Inr finalText, w') \<Rightarrow>
         (Inr finalText, w'\<lparr>spinner := spinner w' @ [Succeed ''Final contract generated'']\<rparr>)
     | (Inl error, w') \<Rightarrow>
         (Inl error, w'\<lparr>spinner := spinner w' @ [Fail ''Failed to generate final contract'']\<rparr>))"

text \<open>The five user messages, as the template literals of \<^verbatim>\<open>processContract\<close> build them.\<close>

definition confirmMessage :: "string \<Rightarrow> string \<Rightarrow> string \<Rightarrow> string" where
  "confirmMessage prompt intakeResponse userInput1 =
     ''User Request: '' @ prompt @ nl @ nl @ ''Intake Information: '' @ intakeResponse
     @ nl @ nl @ ''Additional Details: '' @ userInput1"

definition draftMessage :: "string \<Rightarrow> string \<Rightarrow> string \<Rightarrow> string" where
  "draftMessage prompt confirmResponse userInput2 =
     ''User Request: '' @ prompt @ nl @ nl @ ''Confirmed Specifications: '' @ confirmResponse
     @ nl @ nl @ ''User Confirmation: '' @ userInput2"

definition verifyMessage :: "string \<Rightarrow> string \<Rightarrow> string \<Rightarrow> string" where
  "verifyMessage prompt draftResponse userInput3 =
     ''User Request: '' @ prompt @ nl @ nl @ ''Contract Draft: '' @ draftResponse
     @ nl @ nl @ ''User Feedback: '' @ userInput3"

definition explainMessage :: "string \<Rightarrow> string \<Rightarrow> string \<Rightarrow> string \<Rightarrow> string" where
  "explainMessage prompt draftResponse verifyResponse userInput4 =
     ''User Request: '' @ prompt @ nl @ nl @ ''Final Contract: '' @ draftResponse
     @ nl @ nl @ ''Verification Notes: '' @ verifyResponse
     @ nl @ nl @ ''Final Adjustments: '' @ userInput4"

definition processContract :: "env \<Rightarrow> (string, world) prog" where
  "processContract E =
     bindP (loadPromptFile E ''intake.txt'') (\<lambda>intakePrompt.
     bindP (\<lambda>w. executeStep E ''Intake'' intakePrompt (userPrompt (session (this w))) w)
       (\<lambda>intakeResponse.
     bindP (getUserInput
              ''Please provide any additional details or clarifications for the intake:''
              (Some ''No additional details needed'')) (\<lambda>userInput1.
     bindP (loadPromptFile E ''confirm_specs.txt'') (\<lambda>confirmPrompt.
     bindP (\<lambda>w. executeStep E ''Confirmation'' confirmPrompt
              (confirmMessage (userPrompt (session (this w))) intakeResponse userInput1) w)
       (\<lambda>confirmResponse.
     bindP (getUserInput
              ''Please confirm these specifications or provide any corrections:''
              (Some ''Specifications look good'')) (\<lambda>userInput2.
     bindP (loadPromptFile E ''draft.txt'') (\<lambda>draftPrompt.
     bindP (\<lambda>w. executeStep E ''Drafting'' draftPrompt
              (draftMessage (userPrompt (session (this w))) confirmResponse userInput2) w)
       (\<lambda>draftResponse.
     bindP (set_contractDraft draftResponse) (\<lambda>_.
     bindP (getUserInput
              ''Please review the draft and provide any feedback or specific requirements:''
              (Some ''Draft looks good, proceed with verification'')) (\<lambda>userInput3.
     bindP (loadPromptFile E ''verify.txt'') (\<lambda>verifyPrompt.
     bindP (\<lambda>w. executeStep E ''Verification'' verifyPrompt
              (verifyMessage (userPrompt (session (this w))) draftResponse userInput3) w)
       (\<lambda>verifyResponse.
     bindP (getUserInput
              ''Please review the verification feedback and provide any final adjustments:''
              (Some ''Verification feedback looks good'')) (\<lambda>userInput4.
     bindP (loadPromptFile E ''explain.txt'') (\<lambda>explainPrompt.
     bindP (\<lambda>w. executeStep E ''Explanation'' explainPrompt
              (explainMessage (userPrompt (session (this w))) draftResponse verifyResponse
                 userInput4) w)
       (\<lambda>explainResponse.
     bindP (getUserInput
              ''Please provide any final notes for the contract explanation:''
              (Some ''Explanation looks good'')) (\<lambda>userInput5.
     bindP (generateFinalContract E draftResponse verifyResponse userInput4 userInput5)
       (\<lambda>finalText.
     bindP (set_finalContract finalText) (\<lambda>_.
     returnP finalText))))))))))))))))))"

text \<open>
  \<^verbatim>\<open>writeFileSync\<close> stores the data under the path, or throws; the code around it catches
  nothing.
\<close>

definition writeFileSync :: "env \<Rightarrow> string \<Rightarrow> string \<Rightarrow> (unit, world) prog" where
  "writeFileSync E path data = (\<lambda>w.
     case write_outcome E path data of
       Written \<Rightarrow> (Inr (), w\<lparr>files := (files w)(path \<mapsto> data)\<rparr>)
     | Failed error None \<Rightarrow> (Inl (Thrown error), w)
     | Failed error (Some part) \<Rightarrow> (Inl (Thrown error), w\<lparr>files := (files w)(path \<mapsto> part)\<rparr>))"

text \<open>
  \<^verbatim>\<open>!this.session.finalContract\<close> holds when the final text is missing and when it is the
  empty string; \<^verbatim>\<open>outputPath || ...\<close> takes the generated name when the path is missing and
  when it is the empty string.
\<close>

definition saveContract :: "env \<Rightarrow> string option \<Rightarrow> (unit, world) prog" where
  "saveContract E outputPath = (\<lambda>w.
     if \<not> truthy (finalContract (session (this w)))
     then throwP (ErrorObject PlainError ''No contract to save. Run processContract() first.'') w
     else
       let filename =
             (case outputPath of
                Some p \<Rightarrow> if p \<noteq> [] then p
                          else ''german_freelance_contract_'' @ show_int (clock E) @ ''.txt''
              | None \<Rightarrow> ''german_freelance_contract_'' @ show_int (clock E) @ ''.txt'')
       in case finalContract (session (this w)) of
            Some text \<Rightarrow> writeFileSync E filename text w
          | None \<Rightarrow> (Inr (), w))"

subsection \<open>\<^verbatim>\<open>cli.ts\<close>\<close>

record cli_options =
  opt_apiKey :: "string option"
  opt_prompt :: "string option"
  opt_directory :: "string option"
  opt_output :: "string option"

text \<open>\<^verbatim>\<open>a || b\<close> on an optional string.\<close>

fun or_else :: "string option \<Rightarrow> string \<Rightarrow> string" where
  "or_else None d = d"
| "or_else (Some s) d = (if s \<noteq> [] then s else d)"

definition getConfiguration :: "env \<Rightarrow> cli_options \<Rightarrow> (ProcessConfig, string list) prog" where
  "getConfiguration E options =
     bindP (case opt_apiKey options of
              Some k \<Rightarrow>
                if k \<noteq> [] then returnP k
                else (case env_OPENROUTER_API_KEY E of
                        Some envKey \<Rightarrow>
                          if envKey \<noteq> [] \<and> trim envKey \<noteq> [] then returnP envKey
                          else inquirer_input None (\<lambda>_. True)
                      | None \<Rightarrow> inquirer_input None (\<lambda>_. True))
            | None \<Rightarrow>
                (case env_OPENROUTER_API_KEY E of
                   Some envKey \<Rightarrow>
                     if envKey \<noteq> [] \<and> trim envKey \<noteq> [] then returnP envKey
                     else inquirer_input None (\<lambda>_. True)
                 | None \<Rightarrow> inquirer_input None (\<lambda>_. True))) (\<lambda>key.
     bindP (if \<not> truthy (opt_prompt options)
            then inquirer_input None (\<lambda>input. \<not> length (trim input) < 10)
            else returnP (or_else (opt_prompt options) [])) (\<lambda>prompt.
     returnP \<lparr>apiKey = key,
              directory = or_else (opt_directory options) ''./prompts'',
              cfg_userPrompt = prompt,
              outputFile = opt_output options\<rparr>))"

definition getInteractiveConfiguration ::
  "env \<Rightarrow> cli_options \<Rightarrow> (ProcessConfig, string list) prog" where
  "getInteractiveConfiguration E options =
     bindP (case opt_apiKey options of
              Some k \<Rightarrow>
                if k \<noteq> [] then returnP k
                else (case env_OPENROUTER_API_KEY E of
                        Some envKey \<Rightarrow>
                          if envKey \<noteq> [] \<and> trim envKey \<noteq> [] then returnP envKey
                          else inquirer_input None (\<lambda>_. True)
                      | None \<Rightarrow> inquirer_input None (\<lambda>_. True))
            | None \<Rightarrow>
                (case env_OPENROUTER_API_KEY E of
                   Some envKey \<Rightarrow>
                     if envKey \<noteq> [] \<and> trim envKey \<noteq> [] then returnP envKey
                     else inquirer_input None (\<lambda>_. True)
                 | None \<Rightarrow> inquirer_input None (\<lambda>_. True))) (\<lambda>key.
     bindP (inquirer_input None (\<lambda>input. \<not> length (trim input) < 10)) (\<lambda>prompt.
     bindP (inquirer_input (Some []) (\<lambda>_. True)) (\<lambda>output.
     returnP \<lparr>apiKey = key,
              directory = or_else (opt_directory options) ''./prompts'',
              cfg_userPrompt = prompt,
              outputFile = (if output \<noteq> [] then Some output else None)\<rparr>)))"

text \<open>\<^verbatim>\<open>new ContractProcessor(config)\<close>, then the pipeline, then the save.\<close>

definition generateContract :: "env \<Rightarrow> ProcessConfig \<Rightarrow> (unit, world) prog" where
  "generateContract E cfg =
     bindP (\<lambda>w. (Inr (), w\<lparr>this := new_ContractProcessor cfg\<rparr>)) (\<lambda>_.
     bindP (processContract E) (\<lambda>contract.
     saveContract E (outputFile cfg)))"


definition interactive_action :: "env \<Rightarrow> cli_options \<Rightarrow> (unit, world) prog" where
  "interactive_action E options =
     bindP (on_stdin (getInteractiveConfiguration E options)) (generateContract E)"

subsection \<open>Describing a run of the pipeline\<close>

text \<open>
  The request \<^verbatim>\<open>generateContractStep\<close> sends for a system prompt, a history and a user
  message.
\<close>

definition step_request :: "OpenAIClient \<Rightarrow> string \<Rightarrow> message list \<Rightarrow> string \<Rightarrow> request" where
  "step_request c systemPrompt h userMessage =
     \<lparr>req_client = c, req_model = ''gpt-4'',
      req_messages = \<lparr>role = System, content = systemPrompt\<rparr> # h @ [\<lparr>role = User, content = userMessage\<rparr>],
      req_temperature = 7 / 10, req_max_tokens = 4000\<rparr>"

text \<open>
  \<^verbatim>\<open>executeStep\<close> announces a completed stage call by \<^verbatim>\<open>spinner.succeed(`${stepName} completed`)\<close>
  and nothing else does: the number of completed stage calls is the number of these
  messages.
\<close>

fun stage_completed :: "spinner_event \<Rightarrow> bool" where
  "stage_completed (Succeed s) = suffix '' completed'' s"
| "stage_completed (Fail s) = False"

definition completed_stages :: "world \<Rightarrow> nat" where
  "completed_stages w = length (filter stage_completed (spinner w))"

text \<open>The five template files, in the order \<^verbatim>\<open>processContract\<close> loads them.\<close>

definition templates :: "string list" where
  "templates = [''intake.txt'', ''confirm_specs.txt'', ''draft.txt'', ''verify.txt'', ''explain.txt'']"

text \<open>
  One stage of \<^verbatim>\<open>processContract\<close>: load the template, call the provider, keep the draft
  (third stage only), ask the user. \<^verbatim>\<open>processContract\<close> is five of these and the final
  synthesis (lemma \<open>processContract_stages\<close>).
\<close>

definition stage ::
  "env \<Rightarrow> string \<Rightarrow> string \<Rightarrow> (string \<Rightarrow> string) \<Rightarrow> bool \<Rightarrow> string \<Rightarrow> string \<Rightarrow>
   (string \<times> string, world) prog" where
  "stage E file name mk saves q d =
     bindP (loadPromptFile E file) (\<lambda>sp.
     bindP (\<lambda>w. executeStep E name sp (mk (userPrompt (session (this w)))) w) (\<lambda>r.
     bindP (if saves then set_contractDraft r else returnP ()) (\<lambda>_.
     bindP (getUserInput q (Some d)) (\<lambda>u.
     returnP (r, u)))))"

definition present :: "env \<Rightarrow> world \<Rightarrow> string \<Rightarrow> bool" where
  "present E w f = (files w (pjoin E (directory (config (this w))) f) \<noteq> None)"

definition template :: "env \<Rightarrow> world \<Rightarrow> string \<Rightarrow> string" where
  "template E w f =
     (case files w (pjoin E (directory (config (this w))) f) of Some t \<Rightarrow> trim t | None \<Rightarrow> [])"

text \<open>
  A completed exchange: the template file, the user message and the response. The
  history entries and the requests of a list of exchanges.
\<close>

type_synonym exchange = "string \<times> string \<times> string"

fun pairs :: "exchange list \<Rightarrow> message list" where
  "pairs [] = []"
| "pairs ((f, um, r) # xs) =
     \<lparr>role = User, content = um\<rparr> # \<lparr>role = Assistant, content = r\<rparr> # pairs xs"

fun reqs_of :: "env \<Rightarrow> world \<Rightarrow> message list \<Rightarrow> exchange list \<Rightarrow> request list" where
  "reqs_of E w0 h [] = []"
| "reqs_of E w0 h ((f, um, r) # xs) =
     step_request (client (this w0)) (template E w0 f) h um
       # reqs_of E w0 (h @ [\<lparr>role = User, content = um\<rparr>, \<lparr>role = Assistant, content = r\<rparr>]) xs"

text \<open>
  \<open>trace E w0 xs extra us w\<close>: the world \<open>w\<close> is what \<open>w0\<close> has become after the
  exchanges \<open>xs\<close> were completed, the requests \<open>extra\<close> were sent besides, and the user
  gave the answers \<open>us\<close>.
\<close>

definition trace ::
  "env \<Rightarrow> world \<Rightarrow> exchange list \<Rightarrow> request list \<Rightarrow> string list \<Rightarrow> world \<Rightarrow> bool" where
  "trace E w0 xs extra us w =
     (client (this w) = client (this w0) \<and> config (this w) = config (this w0) \<and>
      userPrompt (session (this w)) = userPrompt (session (this w0)) \<and>
      files w = files w0 \<and>
      history w = history w0 @ pairs xs \<and>
      requests w = requests w0 @ reqs_of E w0 (history w0) xs @ extra \<and>
      answers w = answers w0 @ us \<and>
      completed_stages w = completed_stages w0 + length xs \<and>
      list_all (\<lambda>x. present E w0 (fst x)) xs)"

text \<open>
  The three ways a stage ends a run: its template is missing, the call to the provider
  throws, or the user never answers.
\<close>

definition stage_failed ::
  "env \<Rightarrow> world \<Rightarrow> exchange list \<Rightarrow> string list \<Rightarrow> string \<Rightarrow> string \<Rightarrow> failure \<Rightarrow> world \<Rightarrow> bool"
  where
  "stage_failed E w0 xs us file um e w =
     ((\<not> present E w0 file \<and>
       e = Thrown (ErrorObject PlainError
             (''Prompt file not found: '' @ pjoin E (directory (config (this w0))) file)) \<and>
       trace E w0 xs [] us w)
      \<or> (present E w0 file \<and>
         (\<exists>err. e = Thrown (ErrorObject PlainError (''OpenAI API error: '' @ err))) \<and>
         trace E w0 xs
           [step_request (client (this w0)) (template E w0 file) (history w0 @ pairs xs) um] us w)
      \<or> (present E w0 file \<and> e = InputExhausted \<and>
         (\<exists>r. trace E w0 (xs @ [(file, um, r)]) [] us w)))"

text \<open>The world after a completed stage call.\<close>

definition stepped :: "string \<Rightarrow> request \<Rightarrow> string \<Rightarrow> string \<Rightarrow> bool \<Rightarrow> world \<Rightarrow> world" where
  "stepped name rq um r saves w =
     w\<lparr>this := (this w)\<lparr>session := (session (this w))
           \<lparr>conversationHistory := history w @ [\<lparr>role = User, content = um\<rparr>, \<lparr>role = Assistant, content = r\<rparr>],
            contractDraft := (if saves then Some r else contractDraft (session (this w)))\<rparr>\<rparr>,
        requests := requests w @ [rq],
        spinner := spinner w @ [Succeed (name @ '' completed'')]\<rparr>"

definition final_request ::
  "env \<Rightarrow> world \<Rightarrow> exchange list \<Rightarrow> string \<Rightarrow> string \<Rightarrow> string \<Rightarrow> string \<Rightarrow> request" where
  "final_request E w0 xs d v a x =
     step_request (client (this w0)) (finalPrompt d v a x) (history w0 @ pairs xs)
       ''Generate the final German freelance contract''"

text \<open>
  The exchanges completed when the run has passed each stage, from the original prompt,
  the provider's replies and the user's feedback so far.
\<close>

type_synonym reply = string

type_synonym feedback = string

definition upto_intake :: "string \<Rightarrow> reply \<Rightarrow> exchange list" where
  "upto_intake p r1 = [(''intake.txt'', p, r1)]"

definition upto_confirm :: "string \<Rightarrow> reply \<Rightarrow> feedback \<Rightarrow> reply \<Rightarrow> exchange list" where
  "upto_confirm p r1 u1 r2 =
     upto_intake p r1 @ [(''confirm_specs.txt'', confirmMessage p r1 u1, r2)]"

definition upto_draft ::
  "string \<Rightarrow> reply \<Rightarrow> feedback \<Rightarrow> reply \<Rightarrow> feedback \<Rightarrow> reply \<Rightarrow> exchange list" where
  "upto_draft p r1 u1 r2 u2 r3 =
     upto_confirm p r1 u1 r2 @ [(''draft.txt'', draftMessage p r2 u2, r3)]"

definition upto_verify ::
  "string \<Rightarrow> reply \<Rightarrow> feedback \<Rightarrow> reply \<Rightarrow> feedback \<Rightarrow> reply \<Rightarrow> feedback \<Rightarrow> reply \<Rightarrow>
   exchange list" where
  "upto_verify p r1 u1 r2 u2 r3 u3 r4 =
     upto_draft p r1 u1 r2 u2 r3 @ [(''verify.txt'', verifyMessage p r3 u3, r4)]"

definition upto_explain ::
  "string \<Rightarrow> reply \<Rightarrow> feedback \<Rightarrow> reply \<Rightarrow> feedback \<Rightarrow> reply \<Rightarrow> feedback \<Rightarrow> reply \<Rightarrow>
   feedback \<Rightarrow> reply \<Rightarrow> exchange list" where
  "upto_explain p r1 u1 r2 u2 r3 u3 r4 u4 r5 =
     upto_verify p r1 u1 r2 u2 r3 u3 r4 @ [(''explain.txt'', explainMessage p r3 r4 u4, r5)]"

subsection \<open>The configuration once the key is known\<close>



subsection \<open>A concrete scenario\<close>

text \<open>
  The provider answers the six calls with fixed texts, the five templates exist, the
  user accepts every default by submitting an empty line, and every write succeeds except
  one into the directory \<^verbatim>\<open>no_such_dir\<close>, which does not exist.
\<close>

definition answering :: "string \<Rightarrow> js_thrown + chat_completion" where
  "answering t = Inr (ChatCompletion [Choice (Some (ChoiceMessage (Some t)))])"

definition scenario_replies :: "string list" where
  "scenario_replies =
     [''INTAKE_OK'', ''CONFIRM_OK'', ''DRAFT_TEXT'', ''VERIFY_OK'', ''EXPLAIN_OK'', ''FINAL_TEXT'']"

definition scenario_env :: env where
  "scenario_env =
     \<lparr>provider = (\<lambda>log rq. if length log < 6 then answering (scenario_replies ! length log)
                             else Inl (OtherValue ''unexpected call'')),
      pjoin = (\<lambda>d f. d @ ''/'' @ f),
      clock = 1700000000000,
      env_OPENROUTER_API_KEY = Some ''sk-env'',
      write_outcome = (\<lambda>path data.
        if take 12 path = ''no_such_dir/''
        then Failed (ErrorObject PlainError
               (''ENOENT: no such file or directory, open '' @ path)) None
        else Written)\<rparr>"

definition scenario_config :: ProcessConfig where
  "scenario_config =
     \<lparr>apiKey = ''sk-flag'', directory = ''prompts'',
      cfg_userPrompt = ''Berlin startup needs a 3-month freelance dev contract'',
      outputFile = Some ''contract.txt''\<rparr>"

definition scenario_files :: "string \<rightharpoonup> string" where
  "scenario_files =
     [''prompts/intake.txt'' \<mapsto> '' Ask for the details. '',
      ''prompts/confirm_specs.txt'' \<mapsto> ''Confirm the specifications.'',
      ''prompts/draft.txt'' \<mapsto> ''Draft the contract.'',
      ''prompts/verify.txt'' \<mapsto> ''Verify the contract.'',
      ''prompts/explain.txt'' \<mapsto> ''Explain the contract.'']"

definition scenario_world :: world where
  "scenario_world =
     \<lparr>this = new_ContractProcessor scenario_config,
      stdin = ['''', '''', '''', '''', ''''],
      files = scenario_files,
      answers = [], requests = [], spinner = []\<rparr>"

text \<open>The same, but only the first template exists.\<close>

definition intake_only_world :: world where
  "intake_only_world =
     scenario_world\<lparr>files := [''prompts/intake.txt'' \<mapsto> '' Ask for the details. '']\<rparr>"

text \<open>
  A provider whose every completion has no content, one that refuses every call, and one
  that answers every call with a body that has no choices.
\<close>

definition silent_env :: env where
  "silent_env =
     scenario_env\<lparr>provider := (\<lambda>log rq. Inr (ChatCompletion [Choice (Some (ChoiceMessage None))]))\<rparr>"

definition refusing_env :: env where
  "refusing_env =
     scenario_env\<lparr>provider := (\<lambda>log rq. Inl (ErrorObject RateLimitError ''429 Too Many Requests''))\<rparr>"

definition bodyless_env :: env where
  "bodyless_env =
     scenario_env\<lparr>provider := (\<lambda>log rq.
       Inr (NoChoices ''undefined is not an object (evaluating 'response.choices[0]')''))\<rparr>"



definition bare_options :: cli_options where
  "bare_options =
     \<lparr>opt_apiKey = None, opt_prompt = None, opt_directory = Some ''./prompts'', opt_output = None\<rparr>"

section \<open>Lemmas about runs\<close>

lemma try_block_Inr:
  "try_block E sent rq = Inr t \<longleftrightarrow>
     (\<exists>c. provider E sent rq = Inr c \<and> first_content c = Inr t)"
  by (simp add: try_block_def split: sum.splits)

lemma generateContractStep_eq:
  "generateContractStep E c sp um h w =
     (case try_block E (requests w) (step_request c sp h um) of
        Inr text \<Rightarrow> Inr text
      | Inl error \<Rightarrow> Inl (Thrown (ErrorObject PlainError (''OpenAI API error: '' @ error_text error))),
      w\<lparr>requests := requests w @ [step_request c sp h um]\<rparr>)"
  by (simp add: generateContractStep_def chatCompletion_def step_request_def defaultConfig_def
        no_override_def Let_def split: sum.splits)

lemma pairs_append: "pairs (xs @ ys) = pairs xs @ pairs ys"
  by (induction xs rule: pairs.induct) simp_all

lemma length_pairs: "length (pairs xs) = 2 * length xs"
  by (induction xs rule: pairs.induct) simp_all

lemma reqs_of_snoc:
  "reqs_of E w0 h (xs @ [(f, um, r)]) =
     reqs_of E w0 h xs @ [step_request (client (this w0)) (template E w0 f) (h @ pairs xs) um]"
  by (induction xs arbitrary: h rule: pairs.induct) simp_all

lemma length_reqs_of: "length (reqs_of E w0 h xs) = length xs"
  by (induction xs arbitrary: h rule: pairs.induct) simp_all

lemma suffix_completed [simp]: "suffix '' completed'' (n @ '' completed'')"
  by (simp add: suffix_def)

lemma stage_eq:
  "stage E file name mk saves q d w =
     (case files w (pjoin E (directory (config (this w))) file) of
        None \<Rightarrow>
          (Inl (Thrown (ErrorObject PlainError
             (''Prompt file not found: '' @ pjoin E (directory (config (this w))) file))), w)
      | Some t \<Rightarrow>
          let um = mk (userPrompt (session (this w)));
              rq = step_request (client (this w)) (trim t) (history w) um
          in case try_block E (requests w) rq of
               Inl err \<Rightarrow>
                 (Inl (Thrown (ErrorObject PlainError (''OpenAI API error: '' @ error_text err))),
                  w\<lparr>requests := requests w @ [rq], spinner := spinner w @ [Fail (name @ '' failed'')]\<rparr>)
             | Inr c \<Rightarrow>
                 (case inquirer_input (Some d) (\<lambda>input. length (trim input) \<noteq> 0) (stdin w) of
                    (Inl e, rest) \<Rightarrow>
                      (Inl e, (stepped name rq um c saves w)\<lparr>stdin := rest\<rparr>)
                  | (Inr u, rest) \<Rightarrow>
                      (Inr (c, u),
                       (stepped name rq um c saves w)
                         \<lparr>stdin := rest, answers := answers w @ [u]\<rparr>)))"
  by (simp add: stage_def bindP_def returnP_def throwP_def loadPromptFile_def executeStep_def
        generateContractStep_eq getUserInput_def on_stdin_def set_contractDraft_def push_history_def
        stepped_def Let_def
      split: option.splits sum.splits prod.splits)

lemma inquirer_input_Inl:
  "inquirer_input d v s = (Inl e, rest) \<Longrightarrow> e = InputExhausted \<and> rest = []"
  by (induction s) (auto simp: Let_def split: if_splits)

lemma stage_run:
  assumes run: "stage E file name mk saves q d w = (res, w')"
      and tr: "trace E w0 xs [] us w"
  shows "case res of
           Inr (r, u) \<Rightarrow>
             present E w0 file \<and>
             trace E w0 (xs @ [(file, mk (userPrompt (session (this w0))), r)]) [] (us @ [u]) w'
         | Inl e \<Rightarrow> stage_failed E w0 xs us file (mk (userPrompt (session (this w0)))) e w'"
proof -
  let ?path = "pjoin E (directory (config (this w))) file"
  let ?um = "mk (userPrompt (session (this w0)))"
  from tr have same: "client (this w) = client (this w0)" "config (this w) = config (this w0)"
      "userPrompt (session (this w)) = userPrompt (session (this w0))" "files w = files w0"
    and logs: "history w = history w0 @ pairs xs"
      "requests w = requests w0 @ reqs_of E w0 (history w0) xs"
      "answers w = answers w0 @ us" "completed_stages w = completed_stages w0 + length xs"
      "list_all (\<lambda>x. present E w0 (fst x)) xs"
    by (simp_all add: trace_def)
  show ?thesis
  proof (cases "files w ?path")
    case None
    with run have "res = Inl (Thrown (ErrorObject PlainError (''Prompt file not found: '' @ ?path)))"
      and "w' = w"
      by (auto simp: stage_eq)
    moreover from None same have "\<not> present E w0 file"
      by (simp add: present_def)
    ultimately show ?thesis
      using tr same by (simp add: stage_failed_def)
  next
    case (Some t)
    let ?rq = "step_request (client (this w)) (trim t) (history w) ?um"
    from Some same have pres: "present E w0 file" and tpl: "template E w0 file = trim t"
      by (simp_all add: present_def template_def)
    show ?thesis
    proof (cases "try_block E (requests w) ?rq")
      case (Inl err)
      with run Some same
      have r: "res = Inl (Thrown (ErrorObject PlainError (''OpenAI API error: '' @ error_text err)))"
        and w: "w' = w\<lparr>requests := requests w @ [?rq],
                       spinner := spinner w @ [Fail (name @ '' failed'')]\<rparr>"
        by (auto simp: stage_eq Let_def)
      have "trace E w0 xs
              [step_request (client (this w0)) (template E w0 file) (history w0 @ pairs xs) ?um] us w'"
        using same logs tpl by (simp add: w trace_def completed_stages_def)
      with r pres show ?thesis
        by (auto simp: stage_failed_def)
    next
      case (Inr c)
      let ?w1 = "stepped name ?rq ?um c saves w"
      have t1: "trace E w0 (xs @ [(file, ?um, c)]) [] us (?w1\<lparr>stdin := rest\<rparr>)"
        for rest
        using same logs tpl pres
        by (simp add: trace_def stepped_def completed_stages_def pairs_append reqs_of_snoc)
      have t2: "trace E w0 (xs @ [(file, ?um, c)]) [] (us @ [u])
                  (?w1\<lparr>stdin := rest, answers := answers w @ [u]\<rparr>)"
        for rest u
        using same logs tpl pres
        by (simp add: trace_def stepped_def completed_stages_def pairs_append reqs_of_snoc)
      show ?thesis
      proof (cases "inquirer_input (Some d) (\<lambda>input. length (trim input) \<noteq> 0) (stdin w)")
        case (Pair a rest)
        show ?thesis
        proof (cases a)
          case (Inl e)
          with run Some Inr Pair same have r: "res = Inl e" and w: "w' = ?w1\<lparr>stdin := rest\<rparr>"
            by (auto simp: stage_eq Let_def)
          from Pair Inl have e: "e = InputExhausted"
            by (auto dest: inquirer_input_Inl)
          from t1 have "trace E w0 (xs @ [(file, ?um, c)]) [] us w'"
            by (simp add: w)
          with r e pres show ?thesis
            by (auto simp: stage_failed_def)
        next
          case (Inr u)
          with run Some \<open>try_block E (requests w) ?rq = Inr c\<close> Pair same
          have r: "res = Inr (c, u)"
            and w: "w' = ?w1\<lparr>stdin := rest, answers := answers w @ [u]\<rparr>"
            by (auto simp: stage_eq Let_def)
          from t2 r pres show ?thesis
            by (simp add: w)
        qed
      qed
    qed
  qed
qed

lemma bindP_assoc: "bindP (bindP m f) g = bindP m (\<lambda>x. bindP (f x) g)"
  by (auto simp: bindP_def fun_eq_iff split: prod.splits sum.splits)

lemma bindP_returnP: "bindP (returnP x) f = f x"
  by (simp add: bindP_def returnP_def)

lemma processContract_stages:
  "processContract E =
     bindP (stage E ''intake.txt'' ''Intake'' (\<lambda>p. p) False
              ''Please provide any additional details or clarifications for the intake:''
              ''No additional details needed'') (\<lambda>(intakeResponse, userInput1).
     bindP (stage E ''confirm_specs.txt'' ''Confirmation''
              (\<lambda>p. confirmMessage p intakeResponse userInput1) False
              ''Please confirm these specifications or provide any corrections:''
              ''Specifications look good'') (\<lambda>(confirmResponse, userInput2).
     bindP (stage E ''draft.txt'' ''Drafting''
              (\<lambda>p. draftMessage p confirmResponse userInput2) True
              ''Please review the draft and provide any feedback or specific requirements:''
              ''Draft looks good, proceed with verification'') (\<lambda>(draftResponse, userInput3).
     bindP (stage E ''verify.txt'' ''Verification''
              (\<lambda>p. verifyMessage p draftResponse userInput3) False
              ''Please review the verification feedback and provide any final adjustments:''
              ''Verification feedback looks good'') (\<lambda>(verifyResponse, userInput4).
     bindP (stage E ''explain.txt'' ''Explanation''
              (\<lambda>p. explainMessage p draftResponse verifyResponse userInput4) False
              ''Please provide any final notes for the contract explanation:''
              ''Explanation looks good'') (\<lambda>(explainResponse, userInput5).
     bindP (generateFinalContract E draftResponse verifyResponse userInput4 userInput5)
       (\<lambda>finalText.
     bindP (set_finalContract finalText) (\<lambda>_.
     returnP finalText)))))))"
  unfolding processContract_def stage_def
  by (simp only: bindP_assoc bindP_returnP if_True if_False case_prod_conv)

lemma bindP_stage_cases:
  assumes "bindP (stage E file name mk saves q d) (case_prod f) w = (res, w')"
      and "trace E w0 xs [] us w"
  obtains (failed) e where "res = Inl e"
            "stage_failed E w0 xs us file (mk (userPrompt (session (this w0)))) e w'"
        | (ok) r u w1 where "present E w0 file"
            "trace E w0 (xs @ [(file, mk (userPrompt (session (this w0))), r)]) [] (us @ [u]) w1"
            "f r u w1 = (res, w')"
proof (cases "stage E file name mk saves q d w")
  case (Pair res1 w1)
  show thesis
  proof (cases res1)
    case (Inl e)
    with Pair assms(1) have "res = Inl e" "w' = w1"
      by (auto simp: bindP_def)
    moreover from stage_run[OF Pair assms(2)] Inl
    have "stage_failed E w0 xs us file (mk (userPrompt (session (this w0)))) e w1"
      by simp
    ultimately show thesis
      using failed by simp
  next
    case (Inr ru)
    obtain r u where ru: "ru = (r, u)"
      by (cases ru)
    with Pair Inr assms(1) have "f r u w1 = (res, w')"
      by (auto simp: bindP_def)
    moreover from stage_run[OF Pair assms(2)] Inr ru
    have "present E w0 file"
      "trace E w0 (xs @ [(file, mk (userPrompt (session (this w0))), r)]) [] (us @ [u]) w1"
      by simp_all
    ultimately show thesis
      using ok by blast
  qed
qed

lemma not_completed_final [simp]: "\<not> suffix '' completed'' ''Final contract generated''"
  by (simp add: suffix_to_prefix)

lemma synth_eq:
  "bindP (generateFinalContract E d v a x)
     (\<lambda>finalText. bindP (set_finalContract finalText) (\<lambda>_. returnP finalText)) w =
   (let rq = step_request (client (this w)) (finalPrompt d v a x) (history w)
               ''Generate the final German freelance contract''
    in case try_block E (requests w) rq of
         Inl err \<Rightarrow>
           (Inl (Thrown (ErrorObject PlainError (''OpenAI API error: '' @ error_text err))),
            w\<lparr>requests := requests w @ [rq],
              spinner := spinner w @ [Fail ''Failed to generate final contract'']\<rparr>)
       | Inr c \<Rightarrow>
           (Inr c,
            w\<lparr>this := (this w)\<lparr>session := (session (this w))
                  \<lparr>finalContract := Some c\<rparr>\<rparr>,
              requests := requests w @ [rq],
              spinner := spinner w @ [Succeed ''Final contract generated'']\<rparr>))"
  by (simp add: bindP_def returnP_def generateFinalContract_def generateContractStep_eq
        set_finalContract_def Let_def split: sum.splits)

lemma synth_cases:
  assumes run: "bindP (generateFinalContract E d v a x)
             (\<lambda>finalText. bindP (set_finalContract finalText) (\<lambda>_. returnP finalText)) w = (res, w')"
      and tr: "trace E w0 xs [] us w"
  obtains (failed) err where
            "res = Inl (Thrown (ErrorObject PlainError (''OpenAI API error: '' @ err)))"
            "trace E w0 xs [final_request E w0 xs d v a x] us w'"
            "finalContract (session (this w')) = finalContract (session (this w))"
        | (finished) c where
            "try_block E (requests w0 @ reqs_of E w0 (history w0) xs) (final_request E w0 xs d v a x) = Inr c"
            "res = Inr c"
            "trace E w0 xs [final_request E w0 xs d v a x] us w'"
            "finalContract (session (this w')) = Some c"
proof -
  let ?rq = "step_request (client (this w)) (finalPrompt d v a x) (history w)
               ''Generate the final German freelance contract''"
  from tr have rq: "?rq = final_request E w0 xs d v a x"
    and rs: "requests w = requests w0 @ reqs_of E w0 (history w0) xs"
    by (simp_all add: trace_def final_request_def)
  show thesis
  proof (cases "try_block E (requests w) ?rq")
    case (Inl err)
    with run have r: "res = Inl (Thrown (ErrorObject PlainError (''OpenAI API error: '' @ error_text err)))"
      and w: "w' = w\<lparr>requests := requests w @ [?rq],
                     spinner := spinner w @ [Fail ''Failed to generate final contract'']\<rparr>"
      by (auto simp: synth_eq Let_def)
    have "trace E w0 xs [final_request E w0 xs d v a x] us w'"
      using tr rq by (simp add: w trace_def completed_stages_def)
    moreover have "finalContract (session (this w')) = finalContract (session (this w))"
      by (simp add: w)
    ultimately show thesis
      using failed r by blast
  next
    case (Inr c)
    with run have r: "res = Inr c"
      and w: "w' = w\<lparr>this := (this w)\<lparr>session := (session (this w))
                        \<lparr>finalContract := Some c\<rparr>\<rparr>,
                     requests := requests w @ [?rq],
                     spinner := spinner w @ [Succeed ''Final contract generated'']\<rparr>"
      by (auto simp: synth_eq Let_def)
    have "trace E w0 xs [final_request E w0 xs d v a x] us w'"
      using tr rq by (simp add: w trace_def completed_stages_def)
    moreover have "finalContract (session (this w')) = Some c"
      by (simp add: w)
    moreover from Inr rq rs
    have "try_block E (requests w0 @ reqs_of E w0 (history w0) xs) (final_request E w0 xs d v a x) = Inr c"
      by simp
    ultimately show thesis
      using finished r by blast
  qed
qed

lemma processContract_cases:
  assumes run: "processContract E w0 = (res, w')"
      and p: "p = userPrompt (session (this w0))"
  obtains
    (intake) e where "res = Inl e" "stage_failed E w0 [] [] ''intake.txt'' p e w'"
  | (confirm) r1 u1 e where "res = Inl e"
      "stage_failed E w0 (upto_intake p r1) [u1] ''confirm_specs.txt'' (confirmMessage p r1 u1) e w'"
  | (draft) r1 u1 r2 u2 e where "res = Inl e"
      "stage_failed E w0 (upto_confirm p r1 u1 r2) [u1, u2] ''draft.txt'' (draftMessage p r2 u2) e w'"
  | (verify) r1 u1 r2 u2 r3 u3 e where "res = Inl e"
      "stage_failed E w0 (upto_draft p r1 u1 r2 u2 r3) [u1, u2, u3] ''verify.txt''
         (verifyMessage p r3 u3) e w'"
  | (explain) r1 u1 r2 u2 r3 u3 r4 u4 e where "res = Inl e"
      "stage_failed E w0 (upto_verify p r1 u1 r2 u2 r3 u3 r4) [u1, u2, u3, u4] ''explain.txt''
         (explainMessage p r3 r4 u4) e w'"
  | (synthesis) r1 u1 r2 u2 r3 u3 r4 u4 r5 u5 err where
      "res = Inl (Thrown (ErrorObject PlainError (''OpenAI API error: '' @ err)))"
      "trace E w0 (upto_explain p r1 u1 r2 u2 r3 u3 r4 u4 r5)
         [final_request E w0 (upto_explain p r1 u1 r2 u2 r3 u3 r4 u4 r5) r3 r4 u4 u5]
         [u1, u2, u3, u4, u5] w'"
  | (finished) r1 u1 r2 u2 r3 u3 r4 u4 r5 u5 c where
      "res = Inr c"
      "try_block E (requests w0 @ reqs_of E w0 (history w0) (upto_explain p r1 u1 r2 u2 r3 u3 r4 u4 r5))
         (final_request E w0 (upto_explain p r1 u1 r2 u2 r3 u3 r4 u4 r5) r3 r4 u4 u5) = Inr c"
      "trace E w0 (upto_explain p r1 u1 r2 u2 r3 u3 r4 u4 r5)
         [final_request E w0 (upto_explain p r1 u1 r2 u2 r3 u3 r4 u4 r5) r3 r4 u4 u5]
         [u1, u2, u3, u4, u5] w'"
      "finalContract (session (this w')) = Some c"
proof -
  have t0: "trace E w0 [] [] [] w0"
    by (simp add: trace_def)
  from run[unfolded processContract_stages] t0 show thesis
  proof (cases rule: bindP_stage_cases)
    case (failed e)
    then show thesis using intake p by simp
  next
    case (ok r1 u1 w1)
    from ok(3) ok(2) show thesis
    proof (cases rule: bindP_stage_cases)
      case (failed e)
      then show thesis using confirm[of e r1 u1] p by (simp add: upto_intake_def)
    next
      case (ok r2 u2 w2)
      from ok(3) ok(2) show thesis
      proof (cases rule: bindP_stage_cases)
        case (failed e)
        then show thesis using draft[of e r1 u1 r2 u2] p
          by (simp add: upto_intake_def upto_confirm_def)
      next
        case (ok r3 u3 w3)
        from ok(3) ok(2) show thesis
        proof (cases rule: bindP_stage_cases)
          case (failed e)
          then show thesis using verify[of e r1 u1 r2 u2 r3 u3] p
            by (simp add: upto_intake_def upto_confirm_def upto_draft_def)
        next
          case (ok r4 u4 w4)
          from ok(3) ok(2) show thesis
          proof (cases rule: bindP_stage_cases)
            case (failed e)
            then show thesis using explain[of e r1 u1 r2 u2 r3 u3 r4 u4] p
              by (simp add: upto_intake_def upto_confirm_def upto_draft_def upto_verify_def)
          next
            case (ok r5 u5 w5)
            from ok(2) have t5: "trace E w0 (upto_explain p r1 u1 r2 u2 r3 u3 r4 u4 r5) []
                                   [u1, u2, u3, u4, u5] w5"
              using p by (simp add: upto_intake_def upto_confirm_def upto_draft_def
                    upto_verify_def upto_explain_def)
            from ok(3) have "bindP (generateFinalContract E r3 r4 u4 u5)
                (\<lambda>finalText. bindP (set_finalContract finalText) (\<lambda>_. returnP finalText)) w5
                = (res, w')"
              by simp
            from this t5 show thesis
            proof (cases rule: synth_cases)
              case (failed err)
              then show thesis using synthesis by blast
            next
              case (finished c)
              then show thesis using that(7) by blast
            qed
          qed
        qed
      qed
    qed
  qed
qed

lemmas upto_defs = upto_intake_def upto_confirm_def upto_draft_def upto_verify_def upto_explain_def

lemma executeStep_eq:
  "executeStep E n sp um w =
     (let rq = step_request (client (this w)) sp (history w) um
      in case try_block E (requests w) rq of
           Inl err \<Rightarrow>
             (Inl (Thrown (ErrorObject PlainError (''OpenAI API error: '' @ error_text err))),
              w\<lparr>requests := requests w @ [rq], spinner := spinner w @ [Fail (n @ '' failed'')]\<rparr>)
         | Inr c \<Rightarrow>
             (Inr c, stepped n rq um c False w))"
  by (simp add: executeStep_def generateContractStep_eq push_history_def stepped_def Let_def
      split: sum.splits)

lemma roles_pairs: "map role (pairs xs) = concat (replicate (length xs) [User, Assistant])"
  by (induction xs rule: pairs.induct) simp_all

lemma trace_history:
  assumes "trace E w xs extra us w'"
  shows "completed_stages w' = completed_stages w + length xs"
    and "length (history w') = length (history w) + 2 * length xs"
    and "map role (drop (length (history w)) (history w')) = concat (replicate (length xs) [User, Assistant])"
    and "prefix (history w) (history w')"
  using assms by (simp_all add: trace_def length_pairs roles_pairs)

lemma stage_failed_traceE:
  assumes "stage_failed E w xs us file um e w'"
  obtains xs' extra where "trace E w xs' extra us w'" "length xs' \<le> Suc (length xs)"
  using assms unfolding stage_failed_def
  by (elim disjE conjE exE) (fastforce+)

lemma run_history:
  assumes run: "processContract E w = (res, w')"
  shows "\<exists>n\<le>5. completed_stages w' = completed_stages w + n \<and>
           length (history w') = length (history w) + 2 * n \<and>
           map role (drop (length (history w)) (history w')) = concat (replicate n [User, Assistant]) \<and>
           prefix (history w) (history w') \<and>
           (\<forall>t. res = Inr t \<longrightarrow> n = 5)"
proof -
  have fin: ?thesis if "trace E w xs extra us w'" "length xs \<le> 5" "\<forall>t. res = Inr t \<longrightarrow> length xs = 5"
    for xs extra us
    using trace_history[OF that(1)] that(2,3) by (intro exI[of _ "length xs"]) simp
  from run refl show ?thesis
  proof (cases rule: processContract_cases)
    case (intake e)
    from intake(2) obtain xs' extra where "trace E w xs' extra [] w'" "length xs' \<le> Suc 0"
      by (rule stage_failed_traceE) simp
    with intake(1) show ?thesis by (intro fin[of xs' extra]) simp_all
  next
    case (confirm r1 u1 e)
    from confirm(2) obtain xs' extra where "trace E w xs' extra [u1] w'" "length xs' \<le> 2"
      by (rule stage_failed_traceE) (simp add: upto_defs)
    with confirm(1) show ?thesis by (intro fin[of xs' extra]) simp_all
  next
    case (draft r1 u1 r2 u2 e)
    from draft(2) obtain xs' extra where "trace E w xs' extra [u1, u2] w'" "length xs' \<le> 3"
      by (rule stage_failed_traceE) (simp add: upto_defs)
    with draft(1) show ?thesis by (intro fin[of xs' extra]) simp_all
  next
    case (verify r1 u1 r2 u2 r3 u3 e)
    from verify(2) obtain xs' extra where "trace E w xs' extra [u1, u2, u3] w'" "length xs' \<le> 4"
      by (rule stage_failed_traceE) (simp add: upto_defs)
    with verify(1) show ?thesis by (intro fin[of xs' extra]) simp_all
  next
    case (explain r1 u1 r2 u2 r3 u3 r4 u4 e)
    from explain(2) obtain xs' extra where "trace E w xs' extra [u1, u2, u3, u4] w'" "length xs' \<le> 5"
      by (rule stage_failed_traceE) (simp add: upto_defs)
    with explain(1) show ?thesis by (intro fin[of xs' extra]) simp_all
  next
    case (synthesis r1 u1 r2 u2 r3 u3 r4 u4 r5 u5 err)
    then show ?thesis by (intro fin[OF synthesis(2)]) (simp_all add: upto_defs)
  next
    case (finished r1 u1 r2 u2 r3 u3 r4 u4 r5 u5 c)
    then show ?thesis by (intro fin[OF finished(3)]) (simp_all add: upto_defs)
  qed
qed

lemma length_templates: "length templates = 5"
  by (simp add: templates_def)

lemma missing_bound:
  assumes "list_all (\<lambda>x. present E w (fst x)) xs" "map fst xs = take (length xs) templates"
      and "\<not> present E w (templates ! k)" "k < 5" "length xs \<le> 5"
  shows "length xs \<le> k"
proof (rule ccontr)
  assume "\<not> length xs \<le> k"
  then have k: "k < length xs" by simp
  from assms(2) have "map fst xs ! k = take (length xs) templates ! k"
    by simp
  with k have "fst (xs ! k) = templates ! k"
    by simp
  moreover from assms(1) k have "present E w (fst (xs ! k))"
    by (simp add: list_all_length)
  ultimately show False using assms(3) by simp
qed

lemma stage_failed_bound:
  assumes sf: "stage_failed E w xs us file um e w'"
      and fs: "map fst xs @ [file] = take (Suc (length xs)) templates"
      and k: "\<not> present E w (templates ! k)" "k < 5" and len: "length xs < 5"
  shows "length (requests w') \<le> length (requests w) + k \<and>
         length (history w') \<le> length (history w) + 2 * k"
proof -
  from len have "take (Suc (length xs)) templates = take (length xs) templates @ [templates ! length xs]"
    by (simp add: take_Suc_conv_app_nth length_templates)
  with fs len have fs0: "map fst xs = take (length xs) templates"
    and fl: "file = templates ! length xs"
    by (simp_all add: length_templates)
  from sf show ?thesis
    unfolding stage_failed_def
  proof (elim disjE conjE exE)
    assume tr: "trace E w xs [] us w'"
    then have "length xs \<le> k"
      using missing_bound[OF _ fs0 k] len by (simp add: trace_def)
    with tr show ?thesis
      by (simp add: trace_def length_pairs length_reqs_of)
  next
    fix err
    assume pr: "present E w file"
      and tr: "trace E w xs [step_request (client (this w)) (template E w file) (history w @ pairs xs) um] us w'"
    from tr have "length xs \<le> k"
      using missing_bound[OF _ fs0 k] len by (simp add: trace_def)
    moreover from pr k fl have "k \<noteq> length xs" by auto
    ultimately show ?thesis
      using tr by (simp add: trace_def length_pairs length_reqs_of)
  next
    fix r
    assume tr: "trace E w (xs @ [(file, um, r)]) [] us w'"
    then have "length (xs @ [(file, um, r)]) \<le> k"
      using missing_bound[of E w "xs @ [(file, um, r)]" k] fs k len by (simp add: trace_def)
    with tr show ?thesis
      by (simp add: trace_def length_pairs length_reqs_of)
  qed
qed

lemma run_missing_template:
  assumes run: "processContract E w = (res, w')"
      and k: "k < 5" "\<not> present E w (templates ! k)"
  shows "(\<exists>e. res = Inl e) \<and>
         length (requests w') \<le> length (requests w) + k \<and>
         length (history w') \<le> length (history w) + 2 * k"
  using run refl
proof (cases rule: processContract_cases)
  case (intake e)
  from stage_failed_bound[OF intake(2) _ k(2,1)] intake(1) show ?thesis
    by (simp add: templates_def)
next
  case (confirm r1 u1 e)
  from stage_failed_bound[OF confirm(2) _ k(2,1)] confirm(1) show ?thesis
    by (simp add: templates_def upto_defs)
next
  case (draft r1 u1 r2 u2 e)
  from stage_failed_bound[OF draft(2) _ k(2,1)] draft(1) show ?thesis
    by (simp add: templates_def upto_defs)
next
  case (verify r1 u1 r2 u2 r3 u3 e)
  from stage_failed_bound[OF verify(2) _ k(2,1)] verify(1) show ?thesis
    by (simp add: templates_def upto_defs)
next
  case (explain r1 u1 r2 u2 r3 u3 r4 u4 e)
  from stage_failed_bound[OF explain(2) _ k(2,1)] explain(1) show ?thesis
    by (simp add: templates_def upto_defs)
next
  case (synthesis r1 u1 r2 u2 r3 u3 r4 u4 r5 u5 err)
  from synthesis(2) have "list_all (\<lambda>x. present E w (fst x)) (upto_explain (userPrompt (session (this w))) r1 u1 r2 u2 r3 u3 r4 u4 r5)"
    by (simp add: trace_def)
  from missing_bound[OF this _ k(2,1)] k(1) show ?thesis
    by (simp add: templates_def upto_defs)
next
  case (finished r1 u1 r2 u2 r3 u3 r4 u4 r5 u5 c)
  from finished(3) have "list_all (\<lambda>x. present E w (fst x)) (upto_explain (userPrompt (session (this w))) r1 u1 r2 u2 r3 u3 r4 u4 r5)"
    by (simp add: trace_def)
  from missing_bound[OF this _ k(2,1)] k(1) show ?thesis
    by (simp add: templates_def upto_defs)
qed

lemma reqs_of_defaults:
  "rq \<in> set (reqs_of E w h xs) \<Longrightarrow>
     req_model rq = ''gpt-4'' \<and> req_temperature rq = 7 / 10 \<and> req_max_tokens rq = 4000 \<and>
     req_client rq = client (this w)"
  by (induction xs arbitrary: h rule: pairs.induct) (auto simp: step_request_def)

lemma stage_failed_requestsE:
  assumes "stage_failed E w xs us file um e w'"
  obtains (reqs) new where "requests w' = requests w @ new" "length new \<le> Suc (length xs)"
    "\<forall>rq\<in>set new. req_model rq = ''gpt-4'' \<and> req_temperature rq = 7 / 10 \<and>
       req_max_tokens rq = 4000 \<and> req_client rq = client (this w)"
proof -
  have *: thesis if "trace E w xs' extra us' w'" "length xs' + length extra \<le> Suc (length xs)"
     "\<forall>rq\<in>set extra. req_model rq = ''gpt-4'' \<and> req_temperature rq = 7 / 10 \<and>
       req_max_tokens rq = 4000 \<and> req_client rq = client (this w)" for xs' extra us'
    using that by (intro reqs[of "reqs_of E w (history w) xs' @ extra"])
      (auto simp: trace_def length_reqs_of dest: reqs_of_defaults)
  from assms show thesis
    unfolding stage_failed_def
    by (elim disjE conjE exE) (erule *; simp add: step_request_def)+
qed

lemma trace_requestsE:
  assumes "trace E w xs [final_request E w xs d v a x] us w'"
  obtains (reqs) new where "requests w' = requests w @ new" "length new = Suc (length xs)"
    "\<forall>rq\<in>set new. req_model rq = ''gpt-4'' \<and> req_temperature rq = 7 / 10 \<and>
       req_max_tokens rq = 4000 \<and> req_client rq = client (this w)"
  using assms
  by (intro reqs[of "reqs_of E w (history w) xs @ [final_request E w xs d v a x]"])
     (auto simp: trace_def length_reqs_of final_request_def step_request_def dest: reqs_of_defaults)

lemma run_requests:
  assumes run: "processContract E w = (res, w')"
  shows "\<exists>new. requests w' = requests w @ new \<and> length new \<le> 6 \<and>
           (\<forall>rq\<in>set new. req_model rq = ''gpt-4'' \<and> req_temperature rq = 7 / 10 \<and>
              req_max_tokens rq = 4000 \<and> req_client rq = client (this w)) \<and>
           (\<forall>t. res = Inr t \<longrightarrow> length new = 6)"
  using run refl
proof (cases rule: processContract_cases)
  case (intake e)
  from intake(2) show ?thesis
    by (rule stage_failed_requestsE) (use intake(1) in auto)
next
  case (confirm r1 u1 e)
  from confirm(2) show ?thesis
    by (rule stage_failed_requestsE) (use confirm(1) in \<open>auto simp: upto_defs\<close>)
next
  case (draft r1 u1 r2 u2 e)
  from draft(2) show ?thesis
    by (rule stage_failed_requestsE) (use draft(1) in \<open>auto simp: upto_defs\<close>)
next
  case (verify r1 u1 r2 u2 r3 u3 e)
  from verify(2) show ?thesis
    by (rule stage_failed_requestsE) (use verify(1) in \<open>auto simp: upto_defs\<close>)
next
  case (explain r1 u1 r2 u2 r3 u3 r4 u4 e)
  from explain(2) show ?thesis
    by (rule stage_failed_requestsE) (use explain(1) in \<open>auto simp: upto_defs\<close>)
next
  case (synthesis r1 u1 r2 u2 r3 u3 r4 u4 r5 u5 err)
  from synthesis(2) show ?thesis
    by (rule trace_requestsE) (use synthesis(1) in \<open>auto simp: upto_defs\<close>)
next
  case (finished r1 u1 r2 u2 r3 u3 r4 u4 r5 u5 c)
  from finished(3) show ?thesis
    by (rule trace_requestsE) (use finished(1) in \<open>auto simp: upto_defs\<close>)
qed

lemma run_explain:
  assumes run: "processContract E w = (res, w')"
      and fresh: "history w = []" "requests w = []" "answers w = []"
      and reach: "5 \<le> length (requests w')"
  shows "8 \<le> length (history w') \<and> 4 \<le> length (answers w') \<and>
      history w' ! 4 = \<lparr>role = User, content = draftMessage (userPrompt (session (this w)))
                          (content (history w' ! 3)) (answers w' ! 1)\<rparr> \<and>
      role (history w' ! 5) = Assistant \<and>
      history w' ! 6 = \<lparr>role = User, content = verifyMessage (userPrompt (session (this w)))
                          (content (history w' ! 5)) (answers w' ! 2)\<rparr> \<and>
      role (history w' ! 7) = Assistant \<and>
      req_messages (requests w' ! 4) =
        \<lparr>role = System, content = template E w ''explain.txt''\<rparr> # take 8 (history w') @
        [\<lparr>role = User, content = explainMessage (userPrompt (session (this w)))
            (content (history w' ! 5)) (content (history w' ! 7)) (answers w' ! 3)\<rparr>]"
  using run refl
proof (cases rule: processContract_cases)
  case (intake e)
  with fresh reach show ?thesis
    by (auto simp: stage_failed_def trace_def)
next
  case (confirm r1 u1 e)
  with fresh reach show ?thesis
    by (auto simp: stage_failed_def trace_def upto_defs)
next
  case (draft r1 u1 r2 u2 e)
  with fresh reach show ?thesis
    by (auto simp: stage_failed_def trace_def upto_defs)
next
  case (verify r1 u1 r2 u2 r3 u3 e)
  with fresh reach show ?thesis
    by (auto simp: stage_failed_def trace_def upto_defs)
next
  case (explain r1 u1 r2 u2 r3 u3 r4 u4 e)
  with fresh reach show ?thesis
    by (auto simp: stage_failed_def trace_def upto_defs step_request_def)
next
  case (synthesis r1 u1 r2 u2 r3 u3 r4 u4 r5 u5 err)
  with fresh show ?thesis
    by (simp add: trace_def upto_defs step_request_def)
next
  case (finished r1 u1 r2 u2 r3 u3 r4 u4 r5 u5 c)
  with fresh show ?thesis
    by (simp add: trace_def upto_defs step_request_def)
qed

lemma run_final:
  assumes run: "processContract E w = (Inr fin, w')"
  shows "finalContract (session (this w')) = Some fin \<and>
         length (history w') = length (history w) + 10 \<and>
         length (requests w') = length (requests w) + 6 \<and>
         length (answers w') = length (answers w) + 5 \<and>
         req_messages (last (requests w')) =
           \<lparr>role = System,
              content = finalPrompt (content (history w' ! (length (history w) + 5)))
                          (content (history w' ! (length (history w) + 7)))
                          (answers w' ! (length (answers w) + 3))
                          (answers w' ! (length (answers w) + 4))\<rparr>
           # history w' @
           [\<lparr>role = User, content = ''Generate the final German freelance contract''\<rparr>] \<and>
         (\<exists>c. provider E (butlast (requests w')) (last (requests w')) = Inr c \<and>
              first_content c = Inr fin)"
  using run refl
proof (cases rule: processContract_cases)
  case (finished r1 u1 r2 u2 r3 u3 r4 u4 r5 u5 c)
  let ?xs = "upto_explain (userPrompt (session (this w))) r1 u1 r2 u2 r3 u3 r4 u4 r5"
  let ?rq = "final_request E w ?xs r3 r4 u4 u5"
  from finished(3) have h: "history w' = history w @ pairs ?xs"
    and r: "requests w' = (requests w @ reqs_of E w (history w) ?xs) @ [?rq]"
    and a: "answers w' = answers w @ [u1, u2, u3, u4, u5]"
    by (simp_all add: trace_def)
  have m: "req_messages ?rq =
      \<lparr>role = System, content = finalPrompt r3 r4 u4 u5\<rparr> # (history w @ pairs ?xs) @
      [\<lparr>role = User, content = ''Generate the final German freelance contract''\<rparr>]"
    by (simp add: final_request_def step_request_def)
  have l: "last (requests w') = ?rq" "butlast (requests w') = requests w @ reqs_of E w (history w) ?xs"
    unfolding r by (rule last_snoc, rule butlast_snoc)
  have d: "content (history w' ! (length (history w) + 5)) = r3"
     "content (history w' ! (length (history w) + 7)) = r4"
     "answers w' ! (length (answers w) + 3) = u4" "answers w' ! (length (answers w) + 4) = u5"
    unfolding h a by (simp_all add: upto_defs)
  have "length (history w') = length (history w) + 10"
    unfolding h by (simp add: length_pairs upto_defs)
  moreover have "length (requests w') = length (requests w) + 6"
    unfolding r by (simp add: length_reqs_of upto_defs)
  moreover have "length (answers w') = length (answers w) + 5"
    unfolding a by simp
  moreover have "req_messages (last (requests w')) =
           \<lparr>role = System,
              content = finalPrompt (content (history w' ! (length (history w) + 5)))
                          (content (history w' ! (length (history w) + 7)))
                          (answers w' ! (length (answers w) + 3))
                          (answers w' ! (length (answers w) + 4))\<rparr>
           # history w' @
           [\<lparr>role = User, content = ''Generate the final German freelance contract''\<rparr>]"
    using d unfolding l m h by simp
  moreover from finished(1,2,4) have "finalContract (session (this w')) = Some fin"
    "\<exists>c. provider E (butlast (requests w')) (last (requests w')) = Inr c \<and>
         first_content c = Inr fin"
    unfolding l by (simp_all add: try_block_Inr)
  ultimately show ?thesis
    by blast
qed simp_all

lemma show_nat_digit: "n < 10 \<Longrightarrow> show_nat n = [''0123456789'' ! n]"
  by (simp add: show_nat.simps)

lemma show_nat_digits:
  "10 \<le> n \<Longrightarrow> show_nat n = show_nat (n div 10) @ [''0123456789'' ! (n mod 10)]"
  by (subst show_nat.simps) simp


lemma inquirer_input_accepts:
  "inquirer_input d v s = (Inr a, rest) \<Longrightarrow> v a"
  by (induction s) (auto simp: Let_def split: if_splits)
lemma stage_failed_reached:
  assumes sf: "stage_failed E w xs us file um e w'"
      and fs: "map fst xs @ [file] = take (Suc (length xs)) templates"
      and k: "\<not> present E w (templates ! k)" "k < 5" and len: "length xs < 5"
      and lu: "length us = length xs"
      and h: "length (history w') = length (history w) + 2 * k"
      and a: "length (answers w') = length (answers w) + k"
  shows "e = Thrown (ErrorObject PlainError
           (''Prompt file not found: '' @ pjoin E (directory (config (this w))) (templates ! k)))"
proof -
  from len have "take (Suc (length xs)) templates = take (length xs) templates @ [templates ! length xs]"
    by (simp add: take_Suc_conv_app_nth length_templates)
  with fs len have fs0: "map fst xs = take (length xs) templates"
    and fl: "file = templates ! length xs"
    by (simp_all add: length_templates)
  from sf show ?thesis
    unfolding stage_failed_def
  proof (elim disjE conjE exE)
    assume e: "e = Thrown (ErrorObject PlainError
        (''Prompt file not found: '' @ pjoin E (directory (config (this w))) file))"
      and tr: "trace E w xs [] us w'"
    from tr h have "length xs = k"
      by (simp add: trace_def length_pairs)
    with e fl show ?thesis
      by simp
  next
    fix err
    assume pr: "present E w file"
      and tr: "trace E w xs [step_request (client (this w)) (template E w file) (history w @ pairs xs) um] us w'"
    from tr h have "length xs = k"
      by (simp add: trace_def length_pairs)
    with pr k fl show ?thesis
      by simp
  next
    fix r
    assume tr: "trace E w (xs @ [(file, um, r)]) [] us w'"
    from tr h a lu show ?thesis
      by (simp add: trace_def length_pairs)
  qed
qed

lemma run_missing_template_error:
  assumes run: "processContract E w = (res, w')"
      and k: "k < 5" "\<not> present E w (templates ! k)"
      and h: "length (history w') = length (history w) + 2 * k"
      and a: "length (answers w') = length (answers w) + k"
  shows "res = Inl (Thrown (ErrorObject PlainError
           (''Prompt file not found: '' @ pjoin E (directory (config (this w))) (templates ! k))))"
  using run refl
proof (cases rule: processContract_cases)
  case (intake e)
  from stage_failed_reached[OF intake(2) _ k(2,1) _ _ h a] intake(1) show ?thesis
    by (simp add: templates_def)
next
  case (confirm r1 u1 e)
  from stage_failed_reached[OF confirm(2) _ k(2,1) _ _ h a] confirm(1) show ?thesis
    by (simp add: templates_def upto_defs)
next
  case (draft r1 u1 r2 u2 e)
  from stage_failed_reached[OF draft(2) _ k(2,1) _ _ h a] draft(1) show ?thesis
    by (simp add: templates_def upto_defs)
next
  case (verify r1 u1 r2 u2 r3 u3 e)
  from stage_failed_reached[OF verify(2) _ k(2,1) _ _ h a] verify(1) show ?thesis
    by (simp add: templates_def upto_defs)
next
  case (explain r1 u1 r2 u2 r3 u3 r4 u4 e)
  from stage_failed_reached[OF explain(2) _ k(2,1) _ _ h a] explain(1) show ?thesis
    by (simp add: templates_def upto_defs)
next
  case (synthesis r1 u1 r2 u2 r3 u3 r4 u4 r5 u5 err)
  from synthesis(2) have "list_all (\<lambda>x. present E w (fst x)) (upto_explain (userPrompt (session (this w))) r1 u1 r2 u2 r3 u3 r4 u4 r5)"
    by (simp add: trace_def)
  from missing_bound[OF this _ k(2,1)] k(1) show ?thesis
    by (simp add: templates_def upto_defs)
next
  case (finished r1 u1 r2 u2 r3 u3 r4 u4 r5 u5 c)
  from finished(3) have "list_all (\<lambda>x. present E w (fst x)) (upto_explain (userPrompt (session (this w))) r1 u1 r2 u2 r3 u3 r4 u4 r5)"
    by (simp add: trace_def)
  from missing_bound[OF this _ k(2,1)] k(1) show ?thesis
    by (simp add: templates_def upto_defs)
qed


section \<open>The chat client\<close>

text \<open>
  C5, as the code has it. \<^verbatim>\<open>chatCompletion\<close> sends one request built from the messages
  and the configuration. When the call resolves to a completion with a list of choices,
  it returns the content of the first choice, and the empty string when there is no
  choice, no message or no content. It throws exactly when the provider's call throws or
  resolves to a value with no list of choices, the reading of which throws inside the same
  \<^verbatim>\<open>try\<close> block. What it throws is in both cases a plain \<^verbatim>\<open>Error\<close> whose message is
  \<^verbatim>\<open>OpenAI API error: \<close> followed by the message of the cause (or the cause rendered as a
  string), whatever the class of the cause was.
\<close>

theorem chatCompletion_contract:
  "let rq = \<lparr>req_client = c, req_model = model (defaultConfig cfg), req_messages = messages,
             req_temperature = temperature (defaultConfig cfg),
             req_max_tokens = maxTokens (defaultConfig cfg)\<rparr>;
       result = fst (chatCompletion E c messages cfg w)
   in requests (snd (chatCompletion E c messages cfg w)) = requests w @ [rq] \<and>
      (\<forall>chs. provider E (requests w) rq = Inr (ChatCompletion chs) \<longrightarrow>
         result = Inr (case chs of
                         [] \<Rightarrow> []
                       | ch # _ \<Rightarrow>
                           (case choice_message ch of
                              None \<Rightarrow> []
                            | Some m \<Rightarrow> (case msg_content m of None \<Rightarrow> [] | Some t \<Rightarrow> t)))) \<and>
      ((\<exists>e. result = Inl e) \<longleftrightarrow>
         (\<exists>error. provider E (requests w) rq = Inl error) \<or>
         (\<exists>m. provider E (requests w) rq = Inr (NoChoices m))) \<and>
      (\<forall>k m. provider E (requests w) rq = Inl (ErrorObject k m) \<longrightarrow>
         result = Inl (Thrown (ErrorObject PlainError (''OpenAI API error: '' @ m)))) \<and>
      (\<forall>v. provider E (requests w) rq = Inl (OtherValue v) \<longrightarrow>
         result = Inl (Thrown (ErrorObject PlainError (''OpenAI API error: '' @ v)))) \<and>
      (\<forall>m. provider E (requests w) rq = Inr (NoChoices m) \<longrightarrow>
         result = Inl (Thrown (ErrorObject PlainError (''OpenAI API error: '' @ m))))"
proof -
  have fc: "first_content (ChatCompletion chs) =
      Inr (case chs of
         [] \<Rightarrow> []
       | ch # _ \<Rightarrow>
           (case choice_message ch of
              None \<Rightarrow> []
            | Some m \<Rightarrow> (case msg_content m of None \<Rightarrow> [] | Some t \<Rightarrow> t)))" for chs
    by (cases "ChatCompletion chs" rule: first_content.cases) simp_all
  have nc: "\<exists>m. response = NoChoices m" if "first_content response = Inl e" for response e
    using that by (cases response) (simp_all add: fc)
  show ?thesis
    by (auto simp: chatCompletion_def try_block_def Let_def fc split: sum.splits dest: nc)
qed

theorem chatCompletion_contract_witness:
  "fst (chatCompletion refusing_env (new_OpenAIClient ''sk-flag'')
          [\<lparr>role = User, content = ''Hello''\<rparr>] no_override scenario_world)
     = Inl (Thrown (ErrorObject PlainError ''OpenAI API error: 429 Too Many Requests'')) \<and>
   fst (chatCompletion silent_env (new_OpenAIClient ''sk-flag'')
          [\<lparr>role = User, content = ''Hello''\<rparr>] no_override scenario_world)
     = Inr [] \<and>
   fst (chatCompletion scenario_env (new_OpenAIClient ''sk-flag'')
          [\<lparr>role = User, content = ''Hello''\<rparr>] no_override scenario_world)
     = Inr ''INTAKE_OK'' \<and>
   fst (chatCompletion bodyless_env (new_OpenAIClient ''sk-flag'')
          [\<lparr>role = User, content = ''Hello''\<rparr>] no_override scenario_world)
     = Inl (Thrown (ErrorObject PlainError
         ''OpenAI API error: undefined is not an object (evaluating 'response.choices[0]')''))"
  using chatCompletion_contract[where E = refusing_env and c = "new_OpenAIClient ''sk-flag''"
          and messages = "[\<lparr>role = User, content = ''Hello''\<rparr>]" and cfg = no_override
          and w = scenario_world]
        chatCompletion_contract[where E = silent_env and c = "new_OpenAIClient ''sk-flag''"
          and messages = "[\<lparr>role = User, content = ''Hello''\<rparr>]" and cfg = no_override
          and w = scenario_world]
        chatCompletion_contract[where E = scenario_env and c = "new_OpenAIClient ''sk-flag''"
          and messages = "[\<lparr>role = User, content = ''Hello''\<rparr>]" and cfg = no_override
          and w = scenario_world]
        chatCompletion_contract[where E = bodyless_env and c = "new_OpenAIClient ''sk-flag''"
          and messages = "[\<lparr>role = User, content = ''Hello''\<rparr>]" and cfg = no_override
          and w = scenario_world]
  by (simp add: Let_def refusing_env_def silent_env_def bodyless_env_def scenario_env_def
        scenario_world_def scenario_replies_def answering_def)

text \<open>
  C5, as stated, fails: the remote call does not error, it resolves, to a body without
  choices, and \<^verbatim>\<open>chatCompletion\<close> throws.
\<close>

theorem chatCompletion_missing_choices_counterexample:
  "(\<exists>response. provider bodyless_env (requests scenario_world)
        \<lparr>req_client = new_OpenAIClient ''sk-flag'', req_model = ''gpt-4'',
         req_messages = [\<lparr>role = User, content = ''Hello''\<rparr>],
         req_temperature = 7 / 10, req_max_tokens = 4000\<rparr> = Inr response) \<and>
   requests (snd (chatCompletion bodyless_env (new_OpenAIClient ''sk-flag'')
          [\<lparr>role = User, content = ''Hello''\<rparr>] no_override scenario_world)) =
     [\<lparr>req_client = new_OpenAIClient ''sk-flag'', req_model = ''gpt-4'',
       req_messages = [\<lparr>role = User, content = ''Hello''\<rparr>],
       req_temperature = 7 / 10, req_max_tokens = 4000\<rparr>] \<and>
   fst (chatCompletion bodyless_env (new_OpenAIClient ''sk-flag'')
          [\<lparr>role = User, content = ''Hello''\<rparr>] no_override scenario_world) =
     Inl (Thrown (ErrorObject PlainError
       ''OpenAI API error: undefined is not an object (evaluating 'response.choices[0]')''))"
  by (simp add: chatCompletion_def try_block_def bodyless_env_def scenario_env_def
        scenario_world_def defaultConfig_def no_override_def Let_def)

text \<open>
  C7. \<^verbatim>\<open>generateContractStep\<close> sends exactly one request; its messages are the system
  prompt, then the history, then the new user message; it returns what \<^verbatim>\<open>chatCompletion\<close>
  makes of the provider's answer to that request.
\<close>

theorem generateContractStep_messages:
  "let run = generateContractStep E c systemPrompt userMessage h w;
       rq = last (requests (snd run))
   in requests (snd run) = requests w @ [rq] \<and>
      req_messages rq =
        [\<lparr>role = System, content = systemPrompt\<rparr>] @ h @ [\<lparr>role = User, content = userMessage\<rparr>] \<and>
      fst run =
        (case provider E (requests w) rq of
           Inr response \<Rightarrow>
             (case first_content response of
                Inr text \<Rightarrow> Inr text
              | Inl error \<Rightarrow>
                  Inl (Thrown (ErrorObject PlainError (''OpenAI API error: '' @ error_text error))))
         | Inl error \<Rightarrow>
             Inl (Thrown (ErrorObject PlainError (''OpenAI API error: '' @ error_text error)))) \<and>
      fst run = fst (chatCompletion E c (req_messages rq) no_override w)"
  by (simp add: generateContractStep_eq step_request_def Let_def try_block_def chatCompletion_def
        defaultConfig_def no_override_def split: sum.splits)

theorem generateContractStep_messages_witness:
  "req_messages (last (requests (snd (generateContractStep scenario_env (new_OpenAIClient ''sk-flag'')
       ''Be brief.'' ''And now?''
       [\<lparr>role = User, content = ''Hello''\<rparr>, \<lparr>role = Assistant, content = ''Hi''\<rparr>]
       scenario_world)))) =
     [\<lparr>role = System, content = ''Be brief.''\<rparr>, \<lparr>role = User, content = ''Hello''\<rparr>,
      \<lparr>role = Assistant, content = ''Hi''\<rparr>, \<lparr>role = User, content = ''And now?''\<rparr>] \<and>
   fst (generateContractStep scenario_env (new_OpenAIClient ''sk-flag'')
       ''Be brief.'' ''And now?''
       [\<lparr>role = User, content = ''Hello''\<rparr>, \<lparr>role = Assistant, content = ''Hi''\<rparr>]
       scenario_world) = Inr ''INTAKE_OK''"
  using generateContractStep_messages[where E = scenario_env and c = "new_OpenAIClient ''sk-flag''"
          and systemPrompt = "''Be brief.''" and userMessage = "''And now?''"
          and h = "[\<lparr>role = User, content = ''Hello''\<rparr>, \<lparr>role = Assistant, content = ''Hi''\<rparr>]"
          and w = scenario_world]
  by (simp add: Let_def scenario_env_def scenario_world_def scenario_replies_def answering_def)

text \<open>
  C9. Whatever its arguments, the request of \<^verbatim>\<open>generateContractStep\<close> asks for the model
  \<^verbatim>\<open>gpt-4\<close> with temperature 0.7 and at most 4000 tokens. \<^verbatim>\<open>executeStep\<close> and
  \<^verbatim>\<open>generateFinalContract\<close> send what \<^verbatim>\<open>generateContractStep\<close> sends, and a run of
  \<^verbatim>\<open>processContract\<close> sends at most six requests (exactly six when it returns), each with
  these three values and through the processor's own client.
\<close>

theorem pipeline_requests_use_defaults:
  "(let rq = last (requests (snd (generateContractStep E c systemPrompt userMessage h w)))
    in req_model rq = ''gpt-4'' \<and> req_temperature rq = 7 / 10 \<and> req_max_tokens rq = 4000) \<and>
   requests (snd (executeStep E stepName systemPrompt userMessage w)) =
     requests (snd (generateContractStep E (client (this w)) systemPrompt userMessage (history w) w)) \<and>
   requests (snd (generateFinalContract E draft verification userAdjustments userExplanation w)) =
     requests (snd (generateContractStep E (client (this w))
        (finalPrompt draft verification userAdjustments userExplanation)
        ''Generate the final German freelance contract'' (history w) w)) \<and>
   (\<forall>res w'. processContract E w = (res, w') \<longrightarrow>
      (\<exists>new. requests w' = requests w @ new \<and> length new \<le> 6 \<and>
         (\<forall>rq\<in>set new. req_model rq = ''gpt-4'' \<and> req_temperature rq = 7 / 10 \<and>
            req_max_tokens rq = 4000 \<and> req_client rq = client (this w)) \<and>
         (\<forall>t. res = Inr t \<longrightarrow> length new = 6)))"
proof -
  have "requests (snd (executeStep E stepName systemPrompt userMessage w)) =
     requests (snd (generateContractStep E (client (this w)) systemPrompt userMessage (history w) w))"
    by (simp add: executeStep_eq generateContractStep_eq stepped_def Let_def split: sum.splits)
  moreover
  have "requests (snd (generateFinalContract E draft verification userAdjustments userExplanation w)) =
     requests (snd (generateContractStep E (client (this w))
        (finalPrompt draft verification userAdjustments userExplanation)
        ''Generate the final German freelance contract'' (history w) w))"
    by (simp add: generateFinalContract_def generateContractStep_eq split: sum.splits)
  moreover
  have "let rq = last (requests (snd (generateContractStep E c systemPrompt userMessage h w)))
    in req_model rq = ''gpt-4'' \<and> req_temperature rq = 7 / 10 \<and> req_max_tokens rq = 4000"
    by (simp add: generateContractStep_eq step_request_def)
  ultimately show ?thesis
    using run_requests[of E w] by blast
qed

theorem pipeline_requests_use_defaults_witness:
  "map req_model (requests (snd (processContract scenario_env scenario_world))) =
     [''gpt-4'', ''gpt-4'', ''gpt-4'', ''gpt-4'', ''gpt-4'', ''gpt-4''] \<and>
   map req_max_tokens (requests (snd (processContract scenario_env scenario_world))) =
     [4000, 4000, 4000, 4000, 4000, 4000]"
proof -
  obtain res w' where run: "processContract scenario_env scenario_world = (res, w')"
    by (cases "processContract scenario_env scenario_world")
  have res: "fst (processContract scenario_env scenario_world) = Inr ''FINAL_TEXT''"
    by code_simp
  have fresh: "requests scenario_world = []"
    by (simp add: scenario_world_def)
  from pipeline_requests_use_defaults[of scenario_env "new_OpenAIClient ''sk-flag''" "''''" "''''" "[]"
         scenario_world "''''" "''''" "''''" "''''" "''''"] run res fresh
  obtain new where new: "requests w' = new" "length new = 6"
      "\<forall>rq\<in>set new. req_model rq = ''gpt-4'' \<and> req_max_tokens rq = 4000"
    by fastforce
  from new(2) obtain a b c d e f where "new = [a, b, c, d, e, f]"
    by (auto simp: length_Suc_conv eval_nat_numeral)
  with new run show ?thesis
    by simp
qed

section \<open>The step sequencer\<close>

text \<open>
  C1. A stage call that completes appends to the conversation history the user message
  and then the assistant's response, and nothing else; one that fails appends nothing.
  Over a whole run of \<^verbatim>\<open>processContract\<close> the old history stays as a prefix, and when
  \<open>n\<close> stage calls have completed (\<open>n\<close> is at most 5, and is 5 when the run returns) the
  history has grown by exactly \<open>2 * n\<close> entries, alternately of role user and assistant.
  Loading a template, asking the user, the final synthesis and saving leave the history
  as it is.
\<close>

theorem history_grows_by_two_per_stage:
  "(\<forall>r w'. executeStep E stepName systemPrompt userMessage w = (Inr r, w') \<longrightarrow>
      history w' = history w @ [\<lparr>role = User, content = userMessage\<rparr>,
                                \<lparr>role = Assistant, content = r\<rparr>] \<and>
      completed_stages w' = completed_stages w + 1) \<and>
   (\<forall>e w'. executeStep E stepName systemPrompt userMessage w = (Inl e, w') \<longrightarrow>
      history w' = history w \<and> completed_stages w' = completed_stages w) \<and>
   (\<forall>res w'. processContract E w = (res, w') \<longrightarrow>
      (\<exists>n\<le>5. completed_stages w' = completed_stages w + n \<and>
         length (history w') = length (history w) + 2 * n \<and>
         map role (drop (length (history w)) (history w')) = concat (replicate n [User, Assistant]) \<and>
         prefix (history w) (history w') \<and>
         (\<forall>t. res = Inr t \<longrightarrow> n = 5))) \<and>
   history (snd (loadPromptFile E filename w)) = history w \<and>
   history (snd (getUserInput question defaultValue w)) = history w \<and>
   history (snd (generateFinalContract E draft verification userAdjustments userExplanation w)) =
     history w \<and>
   history (snd (saveContract E outputPath w)) = history w"
proof -
  have "history w' = history w @ [\<lparr>role = User, content = userMessage\<rparr>,
                                  \<lparr>role = Assistant, content = r\<rparr>] \<and>
        completed_stages w' = completed_stages w + 1"
    if "executeStep E stepName systemPrompt userMessage w = (Inr r, w')" for r w'
    using that
    by (auto simp: executeStep_eq stepped_def completed_stages_def Let_def split: sum.splits)
  moreover
  have "history w' = history w \<and> completed_stages w' = completed_stages w"
    if "executeStep E stepName systemPrompt userMessage w = (Inl e, w')" for e w'
    using that
    by (auto simp: executeStep_eq stepped_def completed_stages_def Let_def split: sum.splits)
  moreover
  have "history (snd (loadPromptFile E filename w)) = history w"
    by (simp add: loadPromptFile_def throwP_def Let_def split: option.splits)
  moreover
  have "history (snd (getUserInput question defaultValue w)) = history w"
    by (simp add: getUserInput_def on_stdin_def split: prod.splits sum.splits)
  moreover
  have "history (snd (generateFinalContract E draft verification userAdjustments userExplanation w)) =
     history w"
    by (simp add: generateFinalContract_def generateContractStep_eq split: sum.splits)
  moreover
  have "history (snd (saveContract E outputPath w)) = history w"
    by (simp add: saveContract_def writeFileSync_def throwP_def Let_def
          split: option.splits write_result.splits)
  ultimately show ?thesis
    using run_history[of E w] by blast
qed

theorem history_grows_by_two_per_stage_witness:
  "length (history (snd (processContract scenario_env scenario_world))) = 10 \<and>
   map role (history (snd (processContract scenario_env scenario_world))) =
     [User, Assistant, User, Assistant, User, Assistant, User, Assistant, User, Assistant] \<and>
   length (history (snd (processContract scenario_env intake_only_world))) = 2"
proof -
  have c1: "completed_stages (snd (processContract scenario_env scenario_world)) = 5"
    by code_simp
  have c2: "completed_stages (snd (processContract scenario_env intake_only_world)) = 1"
    by code_simp
  have f: "history scenario_world = []" "completed_stages scenario_world = 0"
    "history intake_only_world = []" "completed_stages intake_only_world = 0"
    by (simp_all add: scenario_world_def intake_only_world_def new_ContractProcessor_def
          completed_stages_def)
  have r: "concat (replicate 5 [User, Assistant]) =
      [User, Assistant, User, Assistant, User, Assistant, User, Assistant, User, Assistant]"
    by (simp add: eval_nat_numeral)
  from history_grows_by_two_per_stage[of scenario_env "''''" "''''" "''''" scenario_world
         "''''" "''''" None "''''" "''''" "''''" "''''" None]
       history_grows_by_two_per_stage[of scenario_env "''''" "''''" "''''" intake_only_world
         "''''" "''''" None "''''" "''''" "''''" "''''" None]
       c1 c2 f r
  show ?thesis
    by (metis (no_types, lifting) add_0 drop0 list.size(3) mult_2 numeral_Bit0 numeral_One
          prod.collapse one_add_one mult.right_neutral)
qed

text \<open>
  C2, as the code has it. When a template file is absent, \<^verbatim>\<open>loadPromptFile\<close> throws an
  error naming the path and changes nothing. The templates are loaded one stage at a
  time: when the template of stage \<open>k\<close> (counted from 0, in the order of \<open>templates\<close>) is
  absent, the run ends in a failure, having sent at most \<open>k\<close> requests and recorded at
  most \<open>k\<close> exchanges in the history: the stages before it run as usual, the call of that
  stage is never made. When the \<open>k\<close> stages before it have been completed and answered, the
  failure is the file-not-found error naming that template's path. When \<^verbatim>\<open>intake.txt\<close> is
  the absent one, the run fails with that error at once and the world is untouched.
\<close>

theorem missing_template_aborts_before_its_call:
  "(files w (pjoin E (directory (config (this w))) filename) = None \<longrightarrow>
      loadPromptFile E filename w =
        (Inl (Thrown (ErrorObject PlainError
           (''Prompt file not found: '' @ pjoin E (directory (config (this w))) filename))), w)) \<and>
   (files w (pjoin E (directory (config (this w))) ''intake.txt'') = None \<longrightarrow>
      processContract E w =
        (Inl (Thrown (ErrorObject PlainError
           (''Prompt file not found: '' @ pjoin E (directory (config (this w))) ''intake.txt''))), w)) \<and>
   (\<forall>k res w'. k < 5 \<and>
        files w (pjoin E (directory (config (this w))) (templates ! k)) = None \<and>
        processContract E w = (res, w') \<longrightarrow>
      (\<exists>e. res = Inl e) \<and>
      length (requests w') \<le> length (requests w) + k \<and>
      length (history w') \<le> length (history w) + 2 * k \<and>
      (length (history w') = length (history w) + 2 * k \<and>
       length (answers w') = length (answers w) + k \<longrightarrow>
         res = Inl (Thrown (ErrorObject PlainError
                 (''Prompt file not found: '' @
                  pjoin E (directory (config (this w))) (templates ! k))))))"
proof -
  have "loadPromptFile E filename w =
        (Inl (Thrown (ErrorObject PlainError
           (''Prompt file not found: '' @ pjoin E (directory (config (this w))) filename))), w)"
    if "files w (pjoin E (directory (config (this w))) filename) = None" for filename
    using that by (simp add: loadPromptFile_def throwP_def)
  moreover from this[of "''intake.txt''"]
  have "processContract E w =
        (Inl (Thrown (ErrorObject PlainError
           (''Prompt file not found: '' @ pjoin E (directory (config (this w))) ''intake.txt''))), w)"
    if "files w (pjoin E (directory (config (this w))) ''intake.txt'') = None"
    using that by (simp add: processContract_def bindP_def)
  moreover
  have "(\<exists>e. res = Inl e) \<and> length (requests w') \<le> length (requests w) + k \<and>
        length (history w') \<le> length (history w) + 2 * k \<and>
        (length (history w') = length (history w) + 2 * k \<and>
         length (answers w') = length (answers w) + k \<longrightarrow>
           res = Inl (Thrown (ErrorObject PlainError
                   (''Prompt file not found: '' @
                    pjoin E (directory (config (this w))) (templates ! k)))))"
    if "k < 5" "files w (pjoin E (directory (config (this w))) (templates ! k)) = None"
       "processContract E w = (res, w')" for k res w'
    using run_missing_template[OF that(3,1)] run_missing_template_error[OF that(3,1)] that(2)
    by (simp add: present_def)
  ultimately show ?thesis
    by blast
qed

theorem missing_template_aborts_before_its_call_witness:
  "fst (processContract scenario_env intake_only_world) =
     Inl (Thrown (ErrorObject PlainError ''Prompt file not found: prompts/confirm_specs.txt'')) \<and>
   length (requests (snd (processContract scenario_env intake_only_world))) \<le> 1 \<and>
   length (history (snd (processContract scenario_env intake_only_world))) \<le> 2"
proof -
  let ?run = "processContract scenario_env intake_only_world"
  have absent: "files intake_only_world
      (pjoin scenario_env (directory (config (this intake_only_world))) (templates ! 1)) = None"
    by code_simp
  have reached: "length (history (snd ?run)) = length (history intake_only_world) + 2 * 1"
    "length (answers (snd ?run)) = length (answers intake_only_world) + 1"
    by code_simp+
  have fresh: "requests intake_only_world = []" "history intake_only_world = []"
    by (simp_all add: intake_only_world_def scenario_world_def new_ContractProcessor_def)
  have path: "''Prompt file not found: '' @
      pjoin scenario_env (directory (config (this intake_only_world))) (templates ! 1) =
      ''Prompt file not found: prompts/confirm_specs.txt''"
    by (simp add: scenario_env_def intake_only_world_def scenario_world_def
          new_ContractProcessor_def scenario_config_def templates_def)
  have run: "?run = (fst ?run, snd ?run)" and k: "1 < (5::nat)"
    by simp_all
  from missing_template_aborts_before_its_call[of intake_only_world scenario_env "''intake.txt''"]
       absent reached run k
  have "fst ?run = Inl (Thrown (ErrorObject PlainError
          (''Prompt file not found: '' @
           pjoin scenario_env (directory (config (this intake_only_world))) (templates ! 1)))) \<and>
        length (requests (snd ?run)) \<le> length (requests intake_only_world) + 1 \<and>
        length (history (snd ?run)) \<le> length (history intake_only_world) + 2 * 1"
    by blast
  with fresh path show ?thesis
    by simp
qed

text \<open>
  C2, as stated, fails: with \<^verbatim>\<open>intake.txt\<close> present and \<^verbatim>\<open>confirm_specs.txt\<close> absent, the
  first stage runs before the failure; one request has been sent and its completion is in
  the history.
\<close>

theorem missing_template_counterexample:
  "files intake_only_world
     (pjoin scenario_env (directory (config (this intake_only_world))) ''confirm_specs.txt'') = None \<and>
   fst (processContract scenario_env intake_only_world) =
     Inl (Thrown (ErrorObject PlainError ''Prompt file not found: prompts/confirm_specs.txt'')) \<and>
   length (requests (snd (processContract scenario_env intake_only_world))) = 1 \<and>
   history (snd (processContract scenario_env intake_only_world)) =
     [\<lparr>role = User, content = ''Berlin startup needs a 3-month freelance dev contract''\<rparr>,
      \<lparr>role = Assistant, content = ''INTAKE_OK''\<rparr>]"
  by code_simp

text \<open>
  C3. In a run that starts with empty logs and reaches the call of the Explain stage
  (its fifth request), the history holds the Draft stage's user message and response at
  positions 4 and 5 and the Verify stage's at 6 and 7, and the fifth request consists of
  the Explain template, these eight history entries, and a user message made of exactly
  four labelled sections: the original prompt, the Draft stage's response, the Verify
  stage's response and the fourth answer of the user (the one given after Verify). The
  second and third answers (given after Confirm and after Draft) are no part of it.
\<close>

theorem explain_message_sections:
  assumes "processContract E w = (res, w')"
      and "history w = []" and "requests w = []" and "answers w = []"
      and "5 \<le> length (requests w')"
  shows "8 \<le> length (history w') \<and> 4 \<le> length (answers w') \<and>
         history w' ! 4 =
           \<lparr>role = User, content = draftMessage (userPrompt (session (this w)))
                                    (content (history w' ! 3)) (answers w' ! 1)\<rparr> \<and>
         role (history w' ! 5) = Assistant \<and>
         history w' ! 6 =
           \<lparr>role = User, content = verifyMessage (userPrompt (session (this w)))
                                    (content (history w' ! 5)) (answers w' ! 2)\<rparr> \<and>
         role (history w' ! 7) = Assistant \<and>
         req_messages (requests w' ! 4) =
           \<lparr>role = System, content = template E w ''explain.txt''\<rparr> # take 8 (history w') @
           [\<lparr>role = User,
              content = ''User Request: '' @ userPrompt (session (this w)) @ nl @ nl @
                        ''Final Contract: '' @ content (history w' ! 5) @ nl @ nl @
                        ''Verification Notes: '' @ content (history w' ! 7) @ nl @ nl @
                        ''Final Adjustments: '' @ answers w' ! 3\<rparr>]"
  using run_explain[OF assms] by (simp add: explainMessage_def)

theorem explain_message_sections_witness:
  "content (last (req_messages (requests (snd (processContract scenario_env scenario_world)) ! 4))) =
     ''User Request: Berlin startup needs a 3-month freelance dev contract'' @ nl @ nl @
     ''Final Contract: DRAFT_TEXT'' @ nl @ nl @
     ''Verification Notes: VERIFY_OK'' @ nl @ nl @
     ''Final Adjustments: Verification feedback looks good''"
proof -
  have fresh: "history scenario_world = []" "requests scenario_world = []"
      "answers scenario_world = []"
    by (simp_all add: scenario_world_def new_ContractProcessor_def)
  have reach: "5 \<le> length (requests (snd (processContract scenario_env scenario_world)))"
    by code_simp
  have vals: "content (history (snd (processContract scenario_env scenario_world)) ! 5) = ''DRAFT_TEXT''"
    "content (history (snd (processContract scenario_env scenario_world)) ! 7) = ''VERIFY_OK''"
    "answers (snd (processContract scenario_env scenario_world)) ! 3 = ''Verification feedback looks good''"
    "userPrompt (session (this scenario_world)) = ''Berlin startup needs a 3-month freelance dev contract''"
    by code_simp+
  have run: "processContract scenario_env scenario_world =
      (fst (processContract scenario_env scenario_world),
       snd (processContract scenario_env scenario_world))"
    by simp
  from explain_message_sections[OF run fresh reach] show ?thesis
    by (simp add: vals)
qed

text \<open>
  C6. \<^verbatim>\<open>generateFinalContract\<close> sends the synthesis prompt, the whole history and its own
  user message, and leaves the history as it was, whether the call succeeds or not. When
  \<^verbatim>\<open>processContract\<close> returns, the last of its six requests is that call, made from the
  Draft and Verify responses and the fourth and fifth answers; the history in the final
  state is the one that request carried (ten entries more than at the start, the
  synthesis exchange not among them); and the returned text, the first choice of the
  provider's answer to that request, is the session's final contract.
\<close>

theorem final_synthesis_reuses_history:
  "history (snd (generateFinalContract E draft verification userAdjustments userExplanation w)) =
     history w \<and>
   req_messages (last (requests
       (snd (generateFinalContract E draft verification userAdjustments userExplanation w)))) =
     \<lparr>role = System, content = finalPrompt draft verification userAdjustments userExplanation\<rparr>
       # history w @ [\<lparr>role = User, content = ''Generate the final German freelance contract''\<rparr>] \<and>
   (\<forall>fin w'. processContract E w = (Inr fin, w') \<longrightarrow>
      finalContract (session (this w')) = Some fin \<and>
      length (history w') = length (history w) + 10 \<and>
      length (requests w') = length (requests w) + 6 \<and>
      length (answers w') = length (answers w) + 5 \<and>
      req_messages (last (requests w')) =
        \<lparr>role = System,
           content = finalPrompt (content (history w' ! (length (history w) + 5)))
                       (content (history w' ! (length (history w) + 7)))
                       (answers w' ! (length (answers w) + 3))
                       (answers w' ! (length (answers w) + 4))\<rparr>
        # history w' @
        [\<lparr>role = User, content = ''Generate the final German freelance contract''\<rparr>] \<and>
      (\<exists>c. provider E (butlast (requests w')) (last (requests w')) = Inr c \<and>
           first_content c = Inr fin))"
proof -
  have "history (snd (generateFinalContract E draft verification userAdjustments userExplanation w)) =
     history w"
    by (simp add: generateFinalContract_def generateContractStep_eq split: sum.splits)
  moreover
  have "req_messages (last (requests
       (snd (generateFinalContract E draft verification userAdjustments userExplanation w)))) =
     \<lparr>role = System, content = finalPrompt draft verification userAdjustments userExplanation\<rparr>
       # history w @ [\<lparr>role = User, content = ''Generate the final German freelance contract''\<rparr>]"
    by (simp add: generateFinalContract_def generateContractStep_eq step_request_def
        split: sum.splits)
  ultimately show ?thesis
    using run_final[of E w] by blast
qed

theorem final_synthesis_reuses_history_witness:
  "finalContract (session (this (snd (processContract scenario_env scenario_world)))) =
     Some ''FINAL_TEXT'' \<and>
   length (history (snd (processContract scenario_env scenario_world))) = 10 \<and>
   length (requests (snd (processContract scenario_env scenario_world))) = 6"
proof -
  have res: "fst (processContract scenario_env scenario_world) = Inr ''FINAL_TEXT''"
    by code_simp
  have fresh: "history scenario_world = []" "requests scenario_world = []"
    by (simp_all add: scenario_world_def new_ContractProcessor_def)
  from final_synthesis_reuses_history[of scenario_env "''''" "''''" "''''" "''''" scenario_world] res
  have "finalContract (session (this (snd (processContract scenario_env scenario_world)))) =
          Some ''FINAL_TEXT'' \<and>
        length (history (snd (processContract scenario_env scenario_world))) =
          length (history scenario_world) + 10 \<and>
        length (requests (snd (processContract scenario_env scenario_world))) =
          length (requests scenario_world) + 6"
    by (metis prod.collapse)
  with fresh show ?thesis
    by simp
qed

section \<open>Persistence and the command line\<close>

text \<open>
  C4, as the code has it. \<^verbatim>\<open>saveContract\<close> fails with the error
  \<^verbatim>\<open>No contract to save. Run processContract() first.\<close> and leaves the world (so every
  file) untouched whenever the session's final text is missing or is the empty string.
  When the final text is a non-empty string, it writes that text to the given path if
  that is a non-empty string, and otherwise to \<^verbatim>\<open>german_freelance_contract_\<close>, the clock's
  value in decimal, \<^verbatim>\<open>.txt\<close>. If the write succeeds, the path holds the text unchanged and
  nothing else differs. If the write throws, \<^verbatim>\<open>saveContract\<close> throws the same value,
  unwrapped; no other path is touched, and the path itself is as it was, or holds what the
  write left there.
\<close>

theorem saveContract_needs_nonempty_text:
  "(\<not> truthy (finalContract (session (this w))) \<longrightarrow>
      saveContract E outputPath w =
        (Inl (Thrown (ErrorObject PlainError ''No contract to save. Run processContract() first.'')),
         w)) \<and>
   (\<forall>text p. finalContract (session (this w)) = Some text \<and> text \<noteq> [] \<and>
        outputPath = Some p \<and> p \<noteq> [] \<longrightarrow>
      saveContract E outputPath w =
        (case write_outcome E p text of
           Written \<Rightarrow> (Inr (), w\<lparr>files := (files w)(p \<mapsto> text)\<rparr>)
         | Failed error None \<Rightarrow> (Inl (Thrown error), w)
         | Failed error (Some part) \<Rightarrow> (Inl (Thrown error), w\<lparr>files := (files w)(p \<mapsto> part)\<rparr>))) \<and>
   (\<forall>text name. finalContract (session (this w)) = Some text \<and> text \<noteq> [] \<and>
        \<not> truthy outputPath \<and>
        name = ''german_freelance_contract_'' @ show_int (clock E) @ ''.txt'' \<longrightarrow>
      saveContract E outputPath w =
        (case write_outcome E name text of
           Written \<Rightarrow> (Inr (), w\<lparr>files := (files w)(name \<mapsto> text)\<rparr>)
         | Failed error None \<Rightarrow> (Inl (Thrown error), w)
         | Failed error (Some part) \<Rightarrow>
             (Inl (Thrown error), w\<lparr>files := (files w)(name \<mapsto> part)\<rparr>)))"
  by (cases outputPath; cases "finalContract (session (this w))")
     (simp_all add: saveContract_def writeFileSync_def throwP_def Let_def)

theorem saveContract_needs_nonempty_text_witness:
  "files (snd (saveContract scenario_env (Some ''contract.txt'')
       (snd (processContract scenario_env scenario_world)))) ''contract.txt'' = Some ''FINAL_TEXT'' \<and>
   files (snd (saveContract scenario_env None
       (snd (processContract scenario_env scenario_world))))
     ''german_freelance_contract_1700000000000.txt'' = Some ''FINAL_TEXT'' \<and>
   saveContract scenario_env (Some ''no_such_dir/contract.txt'')
       (snd (processContract scenario_env scenario_world)) =
     (Inl (Thrown (ErrorObject PlainError
        ''ENOENT: no such file or directory, open no_such_dir/contract.txt'')),
      snd (processContract scenario_env scenario_world)) \<and>
   saveContract scenario_env (Some ''contract.txt'') scenario_world =
     (Inl (Thrown (ErrorObject PlainError ''No contract to save. Run processContract() first.'')),
      scenario_world)"
proof -
  let ?w = "snd (processContract scenario_env scenario_world)"
  have fin: "finalContract (session (this ?w)) = Some ''FINAL_TEXT''"
    by code_simp
  have none: "\<not> truthy (finalContract (session (this scenario_world)))"
    by (simp add: scenario_world_def new_ContractProcessor_def)
  have name: "''german_freelance_contract_'' @ show_int (clock scenario_env) @ ''.txt'' =
      ''german_freelance_contract_1700000000000.txt''"
    by (simp add: show_int_def scenario_env_def show_nat_digit show_nat_digits)
  have ok: "write_outcome scenario_env ''contract.txt'' ''FINAL_TEXT'' = Written"
    "write_outcome scenario_env ''german_freelance_contract_1700000000000.txt'' ''FINAL_TEXT'' =
       Written"
    "write_outcome scenario_env ''no_such_dir/contract.txt'' ''FINAL_TEXT'' =
       Failed (ErrorObject PlainError
         ''ENOENT: no such file or directory, open no_such_dir/contract.txt'') None"
    by (simp_all add: scenario_env_def)
  from saveContract_needs_nonempty_text[of ?w scenario_env "Some ''contract.txt''"] fin ok(1)
  have a: "saveContract scenario_env (Some ''contract.txt'') ?w =
      (Inr (), ?w\<lparr>files := (files ?w)(''contract.txt'' \<mapsto> ''FINAL_TEXT'')\<rparr>)"
    by simp
  from saveContract_needs_nonempty_text[of ?w scenario_env None] fin name ok(2)
  have b: "saveContract scenario_env None ?w =
      (Inr (), ?w\<lparr>files := (files ?w)
         (''german_freelance_contract_1700000000000.txt'' \<mapsto> ''FINAL_TEXT'')\<rparr>)"
    by simp
  from saveContract_needs_nonempty_text[of ?w scenario_env "Some ''no_such_dir/contract.txt''"]
       fin ok(3)
  have d: "saveContract scenario_env (Some ''no_such_dir/contract.txt'') ?w =
     (Inl (Thrown (ErrorObject PlainError
        ''ENOENT: no such file or directory, open no_such_dir/contract.txt'')), ?w)"
    by simp
  from saveContract_needs_nonempty_text[of scenario_world scenario_env "Some ''contract.txt''"] none
  have c: "saveContract scenario_env (Some ''contract.txt'') scenario_world =
     (Inl (Thrown (ErrorObject PlainError ''No contract to save. Run processContract() first.'')),
      scenario_world)"
    by simp
  show ?thesis
    unfolding a b c d by simp
qed

text \<open>
  C4, as stated, fails: when the provider's completions have no content the pipeline
  returns and sets the final text, to the empty string; saving it to an explicit path then
  fails with the precondition error and writes no file.
\<close>

theorem saveContract_empty_text_counterexample:
  "fst (processContract silent_env scenario_world) = Inr [] \<and>
   finalContract (session (this (snd (processContract silent_env scenario_world)))) = Some [] \<and>
   fst (saveContract silent_env (Some ''contract.txt'')
          (snd (processContract silent_env scenario_world))) =
     Inl (Thrown (ErrorObject PlainError ''No contract to save. Run processContract() first.'')) \<and>
   files (snd (saveContract silent_env (Some ''contract.txt'')
          (snd (processContract silent_env scenario_world)))) ''contract.txt'' = None"
  by code_simp




text \<open>
  C10. The description prompt, shown by \<^verbatim>\<open>generate\<close> when \<^verbatim>\<open>--prompt\<close> gives nothing and
  always by \<^verbatim>\<open>interactive\<close>, passes over every submitted line whose trimmed length is below
  10 and asks again, and returns the first line whose trimmed length is at least 10. So a
  description accepted there has a trimmed length of at least 10.
\<close>

theorem prompted_description_at_least_ten:
  "(\<forall>cfg rest. \<not> truthy (opt_prompt options) \<and>
        getConfiguration E options s = (Inr cfg, rest) \<longrightarrow>
      10 \<le> length (trim (cfg_userPrompt cfg))) \<and>
   (\<forall>cfg rest. getInteractiveConfiguration E options s = (Inr cfg, rest) \<longrightarrow>
      10 \<le> length (trim (cfg_userPrompt cfg))) \<and>
   (\<forall>l. length (trim l) < 10 \<longrightarrow>
      inquirer_input None (\<lambda>input. \<not> length (trim input) < 10) (l # s) =
      inquirer_input None (\<lambda>input. \<not> length (trim input) < 10) s) \<and>
   (\<forall>l. 10 \<le> length (trim l) \<longrightarrow>
      inquirer_input None (\<lambda>input. \<not> length (trim input) < 10) (l # s) = (Inr l, s))"
proof -
  have "10 \<le> length (trim (cfg_userPrompt cfg))"
    if "\<not> truthy (opt_prompt options)" "getConfiguration E options s = (Inr cfg, rest)"
    for cfg rest
    using that
    by (auto simp: getConfiguration_def bindP_def returnP_def
        split: prod.splits sum.splits dest!: inquirer_input_accepts)
  moreover
  have "10 \<le> length (trim (cfg_userPrompt cfg))"
    if "getInteractiveConfiguration E options s = (Inr cfg, rest)" for cfg rest
    using that
    by (auto simp: getInteractiveConfiguration_def bindP_def returnP_def
        split: prod.splits sum.splits dest!: inquirer_input_accepts)
  moreover
  have "inquirer_input None (\<lambda>input. \<not> length (trim input) < 10) (l # s) =
      inquirer_input None (\<lambda>input. \<not> length (trim input) < 10) s"
    if "length (trim l) < 10" for l
    using that by (cases "l = []") simp_all
  moreover
  have "inquirer_input None (\<lambda>input. \<not> length (trim input) < 10) (l # s) = (Inr l, s)"
    if "10 \<le> length (trim l)" for l
    using that by (cases "l = []") (simp_all add: trim_def)
  ultimately show ?thesis
    by blast
qed

theorem prompted_description_at_least_ten_witness:
  "getInteractiveConfiguration scenario_env bare_options
     [''too short'', '''', ''A three-month web project in Berlin'', ''''] =
     (Inr \<lparr>apiKey = ''sk-env'', directory = ''./prompts'',
            cfg_userPrompt = ''A three-month web project in Berlin'', outputFile = None\<rparr>, []) \<and>
   10 \<le> length (trim ''A three-month web project in Berlin'') \<and>
   getConfiguration scenario_env bare_options [''hello'', ''  A logo for a Munich bakery  ''] =
     (Inr \<lparr>apiKey = ''sk-env'', directory = ''./prompts'',
            cfg_userPrompt = ''  A logo for a Munich bakery  '', outputFile = None\<rparr>, []) \<and>
   10 \<le> length (trim ''  A logo for a Munich bakery  '')"
proof -
  have run: "getInteractiveConfiguration scenario_env bare_options
     [''too short'', '''', ''A three-month web project in Berlin'', ''''] =
     (Inr \<lparr>apiKey = ''sk-env'', directory = ''./prompts'',
            cfg_userPrompt = ''A three-month web project in Berlin'', outputFile = None\<rparr>, [])"
    by (simp add: getInteractiveConfiguration_def bindP_def returnP_def bare_options_def
          scenario_env_def trim_def is_space_def)
  have run2: "getConfiguration scenario_env bare_options
     [''hello'', ''  A logo for a Munich bakery  ''] =
     (Inr \<lparr>apiKey = ''sk-env'', directory = ''./prompts'',
            cfg_userPrompt = ''  A logo for a Munich bakery  '', outputFile = None\<rparr>, [])"
    by (simp add: getConfiguration_def bindP_def returnP_def bare_options_def
          scenario_env_def trim_def is_space_def)
  have no: "\<not> truthy (opt_prompt bare_options)"
    by (simp add: bare_options_def)
  from prompted_description_at_least_ten[of bare_options scenario_env
         "[''too short'', '''', ''A three-month web project in Berlin'', '''']"] run
       prompted_description_at_least_ten[of bare_options scenario_env
         "[''hello'', ''  A logo for a Munich bakery  '']"] run2 no
  show ?thesis
    by simp
qed

end
